theory Spec2Isabelle
  imports Main
begin

section \<open>Data model (frontend/src/types)\<close>

text \<open>
  TypeScript's types are erased when the code runs: what \<^verbatim>\<open>JSON.parse\<close> returns, what a
  state cell holds and what an HTTP error body carries is a JavaScript value, here a JSON
  value or \<^verbatim>\<open>undefined\<close>. An object is the list of its own properties, each name once.
  The code below never computes with a number; it tests one for truthiness and turns it
  into a string.
\<close>

datatype js_value =
    JUndefined
  | JNull
  | JBool bool
  | JNumber int
  | JString string
  | JArray "js_value list"
  | JObject "(string \<times> js_value) list"

text \<open>
  What a \<^verbatim>\<open>throw\<close> or a rejected promise carries: an instance of \<^verbatim>\<open>Error\<close>
  (with its \<^verbatim>\<open>name\<close> and \<^verbatim>\<open>message\<close>), or any other value.
\<close>

datatype js_exception =
    ErrorInstance string string
  | Thrown js_value

text \<open>
  \<^verbatim>\<open>v.name\<close>, for the names the code reads (\<^verbatim>\<open>type\<close>, \<^verbatim>\<open>ts\<close>, \<^verbatim>\<open>message\<close>, \<^verbatim>\<open>state\<close>,
  \<^verbatim>\<open>payload\<close>, \<^verbatim>\<open>detail\<close>): a TypeError on \<^verbatim>\<open>undefined\<close> and \<^verbatim>\<open>null\<close>; an object's own
  property; \<^verbatim>\<open>undefined\<close> otherwise, since no prototype of a JSON value has a property of
  one of these names.
\<close>

definition get_property :: "js_value \<Rightarrow> string \<Rightarrow> js_exception + js_value" where
  "get_property v name =
     (case v of
        JUndefined \<Rightarrow>
          Inl (ErrorInstance ''TypeError''
                 (''Cannot read properties of undefined (reading '' @ [CHR 0x27] @ name
                    @ [CHR 0x27] @ '')''))
      | JNull \<Rightarrow>
          Inl (ErrorInstance ''TypeError''
                 (''Cannot read properties of null (reading '' @ [CHR 0x27] @ name
                    @ [CHR 0x27] @ '')''))
      | JObject kvs \<Rightarrow> (case map_of kvs name of Some x \<Rightarrow> Inr x | None \<Rightarrow> Inr JUndefined)
      | _ \<Rightarrow> Inr JUndefined)"

text \<open>
  \<^verbatim>\<open>export type AnalysisState = 'idle' | 'running' | 'stopped' | 'error';\<close>
\<close>

definition idle :: js_value where
  "idle = JString ''idle''"

definition running :: js_value where
  "running = JString ''running''"

definition stopped :: js_value where
  "stopped = JString ''stopped''"

definition error :: js_value where
  "error = JString ''error''"

definition AnalysisState :: "js_value \<Rightarrow> bool" where
  "AnalysisState v = (v = idle \<or> v = running \<or> v = stopped \<or> v = error)"

text \<open>
  \<^verbatim>\<open>export type WebSocketMessage = LogMessage | StatusMessage | ResultMessage | PingMessage;\<close>
  with \<^verbatim>\<open>LogMessage {type: 'log'; message: string; ts: string}\<close>,
  \<^verbatim>\<open>StatusMessage {type: 'status'; state: AnalysisState}\<close>,
  \<^verbatim>\<open>ResultMessage {type: 'result'; payload: any}\<close> and \<^verbatim>\<open>PingMessage {type: 'ping'}\<close>:
  the values that are well-formed messages.
\<close>

definition has_type :: "js_value \<Rightarrow> string \<Rightarrow> bool" where
  "has_type v t = (get_property v ''type'' = Inr (JString t))"

definition is_string :: "js_value \<Rightarrow> bool" where
  "is_string v = (case v of JString _ \<Rightarrow> True | _ \<Rightarrow> False)"

definition LogMessage :: "js_value \<Rightarrow> bool" where
  "LogMessage v =
     (has_type v ''log''
      \<and> (case get_property v ''message'' of Inr m \<Rightarrow> is_string m | Inl _ \<Rightarrow> False)
      \<and> (case get_property v ''ts'' of Inr t \<Rightarrow> is_string t | Inl _ \<Rightarrow> False))"

definition StatusMessage :: "js_value \<Rightarrow> bool" where
  "StatusMessage v =
     (has_type v ''status''
      \<and> (case get_property v ''state'' of Inr s \<Rightarrow> AnalysisState s | Inl _ \<Rightarrow> False))"

definition ResultMessage :: "js_value \<Rightarrow> bool" where
  "ResultMessage v =
     (has_type v ''result''
      \<and> (case v of JObject kvs \<Rightarrow> map_of kvs ''payload'' \<noteq> None | _ \<Rightarrow> False))"

definition PingMessage :: "js_value \<Rightarrow> bool" where
  "PingMessage v = has_type v ''ping''"

definition WebSocketMessage :: "js_value \<Rightarrow> bool" where
  "WebSocketMessage v = (LogMessage v \<or> StatusMessage v \<or> ResultMessage v \<or> PingMessage v)"

text \<open>
  The string a value turns into, in a template literal or as the message of
  \<^verbatim>\<open>new Error(v)\<close>. An array joins its elements with commas, \<^verbatim>\<open>null\<close> and \<^verbatim>\<open>undefined\<close>
  elements as the empty string. An object is \<^verbatim>\<open>[object Object]\<close>, unless it has an own
  property \<^verbatim>\<open>toString\<close>: that is a JSON value, so not callable, and since \<^verbatim>\<open>valueOf\<close>
  gives no primitive either the conversion throws a TypeError. How a number is written is
  the engine's, passed in as \<open>num\<close>.
\<close>

fun ToString :: "(int \<Rightarrow> string) \<Rightarrow> js_value \<Rightarrow> js_exception + string"
  and join :: "(int \<Rightarrow> string) \<Rightarrow> js_value list \<Rightarrow> js_exception + string" where
  "ToString num JUndefined = Inr ''undefined''"
| "ToString num JNull = Inr ''null''"
| "ToString num (JBool b) = Inr (if b then ''true'' else ''false'')"
| "ToString num (JNumber n) = Inr (num n)"
| "ToString num (JString s) = Inr s"
| "ToString num (JArray xs) = join num xs"
| "ToString num (JObject kvs) =
     (if map_of kvs ''toString'' = None then Inr ''[object Object]''
      else Inl (ErrorInstance ''TypeError'' ''Cannot convert object to primitive value''))"
| "join num [] = Inr []"
| "join num (x # xs) =
     (case (if x = JUndefined \<or> x = JNull then Inr [] else ToString num x) of
        Inl e \<Rightarrow> Inl e
      | Inr s \<Rightarrow>
          (if xs = [] then Inr s
           else (case join num xs of Inl e \<Rightarrow> Inl e | Inr t \<Rightarrow> Inr (s @ '','' @ t))))"

text \<open>Falsy are \<^verbatim>\<open>undefined\<close>, \<^verbatim>\<open>null\<close>, \<^verbatim>\<open>false\<close>, 0 and the empty string.\<close>

fun truthy :: "js_value \<Rightarrow> bool" where
  "truthy JUndefined = False"
| "truthy JNull = False"
| "truthy (JBool b) = b"
| "truthy (JNumber n) = (n \<noteq> 0)"
| "truthy (JString s) = (s \<noteq> [])"
| "truthy (JArray _) = True"
| "truthy (JObject _) = True"

text \<open>
  \<^verbatim>\<open>export type ResearchDepth = 'quick' | 'standard' | 'deep';\<close>
  \<^verbatim>\<open>export type LLMProvider = 'openai' | 'anthropic' | 'google' | 'openrouter' | 'ollama';\<close>
\<close>

datatype ResearchDepth = quick | standard | deep

datatype LLMProvider = openai | anthropic | google | openrouter | ollama

record AnalystConfig =
  market :: bool
  social :: bool
  news :: bool
  fundamentals :: bool
  momentum :: bool

record AnalysisRequest =
  ticker :: string
  analysis_date :: string
  analysts :: AnalystConfig
  research_depth :: int
  llm_provider :: LLMProvider
  shallow_model :: string
  deep_model :: string

record ConfigFormData =
  ticker :: string
  analysisDate :: string
  analysts :: AnalystConfig
  researchDepth :: ResearchDepth
  llmProvider :: LLMProvider
  shallowModel :: string
  deepModel :: string

section \<open>The browser around the hook\<close>

text \<open>The console: each call of \<^verbatim>\<open>console.log\<close> or \<^verbatim>\<open>console.error\<close> with its arguments.\<close>

datatype console_arg =
    ArgString string
  | ArgValue js_value
  | ArgException js_exception
  | ArgRequest AnalysisRequest
  | ArgEvent

datatype console_entry =
    ConsoleLog "console_arg list"
  | ConsoleError "console_arg list"

datatype readyState = CONNECTING | OPEN | CLOSING | CLOSED

record WebSocket =
  url :: string
  readyState :: readyState

text \<open>A pending \<^verbatim>\<open>setTimeout\<close>: its handle, the time it was set and its delay (ms).
  The only callback the hook ever schedules is \<^verbatim>\<open>connect\<close>.\<close>

record timer =
  handle :: nat
  set_at :: nat
  delay :: nat

text \<open>What the code takes from the JavaScript engine: how a number is written.\<close>

record js_engine =
  Number_toString :: "int \<Rightarrow> string"

text \<open>
  What the hook takes from its platform besides: \<^verbatim>\<open>import.meta.env.VITE_WS_URL\<close>;
  \<^verbatim>\<open>JSON.parse\<close> (\<open>Inl\<close> is the exception it throws; the hook casts its result to
  \<^verbatim>\<open>WebSocketMessage\<close> without checking it); \<^verbatim>\<open>new Date(s).toLocaleTimeString()\<close> for a
  string \<open>s\<close> and for a number of milliseconds.
\<close>

record platform = js_engine +
  VITE_WS_URL :: "string option"
  JSON_parse :: "string \<Rightarrow> js_exception + js_value"
  toLocaleTimeString :: "string \<Rightarrow> string"
  toLocaleTimeString_ms :: "int \<Rightarrow> string"

section \<open>useWebSocket (frontend/src/hooks/useWebSocket.ts)\<close>

definition WS_URL :: "platform \<Rightarrow> string" where
  "WS_URL pf = (case VITE_WS_URL pf of Some u \<Rightarrow> u | None \<Rightarrow> ''ws://localhost:8000/ws'')"

definition RECONNECT_DELAY :: nat where
  "RECONNECT_DELAY = 3000"

text \<open>
  \<^verbatim>\<open>UseWebSocketResult\<close>: what the hook returns to its caller. Its fourth member,
  \<^verbatim>\<open>clearMessages\<close>, is the function of that name below.
\<close>

record UseWebSocketResult =
  isConnected :: bool
  messages :: "string list"
  state :: js_value

text \<open>
  The hook instance: its three \<^verbatim>\<open>useState\<close> cells (the part the caller sees), its three
  refs, and the browser objects its closures act on: every socket it has constructed
  (a socket is named by its position in \<open>sockets\<close>), the pending timeouts, the counter
  handing out timeout handles, the clock (ms) and the console. A state setter is modelled
  by its effect on the next render.
\<close>

record client = UseWebSocketResult +
  wsRef :: "nat option"
  reconnectTimeoutRef :: "nat option"
  shouldConnectRef :: bool
  sockets :: "WebSocket list"
  timers :: "timer list"
  next_handle :: nat
  now :: nat
  console :: "console_entry list"

text \<open>The initial values of the \<^verbatim>\<open>useState\<close> and \<^verbatim>\<open>useRef\<close> calls, in a fresh page.
  Timeout handles are positive integers.\<close>

definition initial :: client where
  "initial = \<lparr> isConnected = False, messages = [], state = idle,
               wsRef = None, reconnectTimeoutRef = None, shouldConnectRef = True,
               sockets = [], timers = [], next_handle = 1, now = 0, console = [] \<rparr>"

definition useWebSocketResult :: "client \<Rightarrow> UseWebSocketResult" where
  "useWebSocketResult c =
     \<lparr> isConnected = isConnected c, messages = messages c, state = state c \<rparr>"

subsection \<open>Browser primitives\<close>

definition console_log :: "console_arg list \<Rightarrow> client \<Rightarrow> client" where
  "console_log args c = c\<lparr>console := console c @ [ConsoleLog args]\<rparr>"

definition console_error :: "console_arg list \<Rightarrow> client \<Rightarrow> client" where
  "console_error args c = c\<lparr>console := console c @ [ConsoleError args]\<rparr>"

definition socket_readyState :: "client \<Rightarrow> nat \<Rightarrow> readyState option" where
  "socket_readyState c i =
     (if i < length (sockets c) then Some (readyState (sockets c ! i)) else None)"

definition set_readyState :: "nat \<Rightarrow> readyState \<Rightarrow> client \<Rightarrow> client" where
  "set_readyState i r c =
     (if i < length (sockets c)
      then c\<lparr>sockets := (sockets c)[i := (sockets c ! i)\<lparr>readyState := r\<rparr>]\<rparr>
      else c)"

text \<open>\<^verbatim>\<open>new WebSocket(url)\<close>: a new socket, connecting.\<close>

definition new_WebSocket :: "string \<Rightarrow> client \<Rightarrow> nat \<times> client" where
  "new_WebSocket u c =
     (length (sockets c),
      c\<lparr>sockets := sockets c @ [\<lparr> url = u, readyState = CONNECTING \<rparr>]\<rparr>)"

text \<open>\<^verbatim>\<open>ws.close()\<close>: nothing on a socket that is closing or closed; otherwise the
  socket starts closing, and its close event comes later.\<close>

definition WebSocket_close :: "nat \<Rightarrow> client \<Rightarrow> client" where
  "WebSocket_close i c =
     (case socket_readyState c i of
        Some CONNECTING \<Rightarrow> set_readyState i CLOSING c
      | Some OPEN \<Rightarrow> set_readyState i CLOSING c
      | _ \<Rightarrow> c)"

definition setTimeout :: "nat \<Rightarrow> client \<Rightarrow> nat \<times> client" where
  "setTimeout d c =
     (next_handle c,
      c\<lparr>timers := timers c @ [\<lparr> handle = next_handle c, set_at = now c, delay = d \<rparr>],
        next_handle := Suc (next_handle c)\<rparr>)"

definition clearTimeout :: "nat \<Rightarrow> client \<Rightarrow> client" where
  "clearTimeout h c = c\<lparr>timers := filter (\<lambda>t. handle t \<noteq> h) (timers c)\<rparr>"

text \<open>\<^verbatim>\<open>if (reconnectTimeoutRef.current)\<close> on a \<^verbatim>\<open>number | null\<close>: null (the \<open>None\<close>
  of the ref) and the number 0 are falsy.\<close>

definition truthy_handle :: "nat \<Rightarrow> bool" where
  "truthy_handle h = (h \<noteq> 0)"

text \<open>Decimal digits, for the template literal \<^verbatim>\<open>`Reconnecting in ${RECONNECT_DELAY}ms...`\<close>.\<close>

fun string_of_nat :: "nat \<Rightarrow> string" where
  "string_of_nat n =
     (if n < 10 then [char_of (48 + n)]
      else string_of_nat (n div 10) @ [char_of (48 + n mod 10)])"

declare string_of_nat.simps [simp del]

subsection \<open>The cleanup of the mount effect\<close>

text \<open>
  \<^verbatim>\<open>
  return () => {
    shouldConnectRef.current = false;
    if (reconnectTimeoutRef.current) { clearTimeout(reconnectTimeoutRef.current); }
    if (wsRef.current) { wsRef.current.close(); wsRef.current = null; }
  };
  \<close>
\<close>

definition cleanup :: "client \<Rightarrow> client" where
  "cleanup c =
     (let c1 = c\<lparr>shouldConnectRef := False\<rparr>;
          c2 = (case reconnectTimeoutRef c1 of
                  Some h \<Rightarrow> (if truthy_handle h then clearTimeout h c1 else c1)
                | None \<Rightarrow> c1)
      in case wsRef c2 of
           Some ws \<Rightarrow> (WebSocket_close ws c2)\<lparr>wsRef := None\<rparr>
         | None \<Rightarrow> c2)"

subsection \<open>connect and the socket's handlers\<close>

text \<open>
  \<^verbatim>\<open>
  if (wsRef.current?.readyState === WebSocket.OPEN || !shouldConnectRef.current) return;
  console.log('Connecting to WebSocket...');
  const ws = new WebSocket(WS_URL);
  ws.onopen = ...; ws.onmessage = ...; ws.onerror = ...; ws.onclose = ...;
  wsRef.current = ws;
  \<close>
\<close>

definition connect :: "platform \<Rightarrow> client \<Rightarrow> client" where
  "connect pf c =
     (if (case wsRef c of None \<Rightarrow> False | Some i \<Rightarrow> socket_readyState c i = Some OPEN)
         \<or> \<not> shouldConnectRef c
      then c
      else (let c1 = console_log [ArgString ''Connecting to WebSocket...''] c;
                (ws, c2) = new_WebSocket (WS_URL pf) c1
            in c2\<lparr>wsRef := Some ws\<rparr>))"

text \<open>
  \<^verbatim>\<open>
  ws.onopen = () => {
    console.log('WebSocket connected');
    setIsConnected(true);
    if (reconnectTimeoutRef.current) {
      clearTimeout(reconnectTimeoutRef.current);
      reconnectTimeoutRef.current = null;
    }
  };
  \<close>
\<close>

definition onopen :: "client \<Rightarrow> client" where
  "onopen c =
     (let c1 = console_log [ArgString ''WebSocket connected''] c;
          c2 = c1\<lparr>isConnected := True\<rparr>
      in case reconnectTimeoutRef c2 of
           Some h \<Rightarrow>
             (if truthy_handle h then (clearTimeout h c2)\<lparr>reconnectTimeoutRef := None\<rparr>
              else c2)
         | None \<Rightarrow> c2)"

text \<open>
  \<^verbatim>\<open>new Date(v).toLocaleTimeString()\<close>: \<^verbatim>\<open>undefined\<close> gives an invalid date, which prints as
  \<^verbatim>\<open>Invalid Date\<close>; \<^verbatim>\<open>null\<close>, a boolean and a number are a number of milliseconds; a string
  is parsed; an array or an object is first turned into a string, which may throw.
\<close>

definition new_Date_toLocaleTimeString :: "platform \<Rightarrow> js_value \<Rightarrow> js_exception + string" where
  "new_Date_toLocaleTimeString pf v =
     (case v of
        JUndefined \<Rightarrow> Inr ''Invalid Date''
      | JNull \<Rightarrow> Inr (toLocaleTimeString_ms pf 0)
      | JBool b \<Rightarrow> Inr (toLocaleTimeString_ms pf (if b then 1 else 0))
      | JNumber n \<Rightarrow> Inr (toLocaleTimeString_ms pf n)
      | JString s \<Rightarrow> Inr (toLocaleTimeString pf s)
      | _ \<Rightarrow> (case ToString (Number_toString pf) v of
                Inl e \<Rightarrow> Inl e
              | Inr s \<Rightarrow> Inr (toLocaleTimeString pf s)))"

text \<open>
  \<^verbatim>\<open>
  ws.onmessage = (event) => {
    try {
      const data: WebSocketMessage = JSON.parse(event.data);
      if (data.type === 'ping') {
      } else if (data.type === 'log') {
        const timestamp = new Date(data.ts).toLocaleTimeString();
        setMessages((prev) => [...prev, `[${timestamp}] ${data.message}`]);
      } else if (data.type === 'status') {
        setState(data.state);
      } else if (data.type === 'result') {
        console.log('Received result:', data.payload);
      }
    } catch (error) {
      console.error('Failed to parse WebSocket message:', error);
    }
  };
  \<close>
  The function handed to \<^verbatim>\<open>setMessages\<close> is run by React, not inside the \<^verbatim>\<open>try\<close>: the
  template literal in it is evaluated when React computes the next state. If turning
  \<^verbatim>\<open>data.message\<close> into a string throws there, the render of \<^verbatim>\<open>App\<close> throws, React
  unmounts the component, and the cleanup of the mount effect runs.
\<close>

definition setMessages_appended :: "platform \<Rightarrow> string \<Rightarrow> js_value \<Rightarrow> client \<Rightarrow> client" where
  "setMessages_appended pf timestamp data c =
     (case (case get_property data ''message'' of
              Inl e \<Rightarrow> Inl e
            | Inr m \<Rightarrow> ToString (Number_toString pf) m) of
        Inr message \<Rightarrow> c\<lparr>messages := messages c @ [''['' @ timestamp @ ''] '' @ message]\<rparr>
      | Inl _ \<Rightarrow> cleanup c)"

text \<open>The body of the \<^verbatim>\<open>try\<close>: \<open>Inl\<close> is the exception it throws, before any effect.\<close>

definition onmessage_try :: "platform \<Rightarrow> string \<Rightarrow> client \<Rightarrow> js_exception + client" where
  "onmessage_try pf event_data c =
     (case JSON_parse pf event_data of
        Inl e \<Rightarrow> Inl e
      | Inr data \<Rightarrow>
          (case get_property data ''type'' of
             Inl e \<Rightarrow> Inl e
           | Inr t \<Rightarrow>
               if t = JString ''ping'' then Inr c
               else if t = JString ''log'' then
                 (case get_property data ''ts'' of
                    Inl e \<Rightarrow> Inl e
                  | Inr ts \<Rightarrow>
                      (case new_Date_toLocaleTimeString pf ts of
                         Inl e \<Rightarrow> Inl e
                       | Inr timestamp \<Rightarrow> Inr (setMessages_appended pf timestamp data c)))
               else if t = JString ''status'' then
                 (case get_property data ''state'' of
                    Inl e \<Rightarrow> Inl e
                  | Inr s \<Rightarrow> Inr (c\<lparr>state := s\<rparr>))
               else if t = JString ''result'' then
                 (case get_property data ''payload'' of
                    Inl e \<Rightarrow> Inl e
                  | Inr payload \<Rightarrow>
                      Inr (console_log [ArgString ''Received result:'', ArgValue payload] c))
               else Inr c))"

definition onmessage :: "platform \<Rightarrow> string \<Rightarrow> client \<Rightarrow> client" where
  "onmessage pf event_data c =
     (case onmessage_try pf event_data c of
        Inr c' \<Rightarrow> c'
      | Inl err \<Rightarrow>
          console_error [ArgString ''Failed to parse WebSocket message:'', ArgException err] c)"

text \<open>\<^verbatim>\<open>ws.onerror = (error) => { console.error('WebSocket error:', error); };\<close>\<close>

definition onerror :: "client \<Rightarrow> client" where
  "onerror c = console_error [ArgString ''WebSocket error:'', ArgEvent] c"

text \<open>
  \<^verbatim>\<open>
  ws.onclose = () => {
    console.log('WebSocket disconnected');
    setIsConnected(false);
    wsRef.current = null;
    if (shouldConnectRef.current) {
      console.log(`Reconnecting in ${RECONNECT_DELAY}ms...`);
      reconnectTimeoutRef.current = setTimeout(() => { connect(); }, RECONNECT_DELAY);
    }
  };
  \<close>
\<close>

definition onclose :: "client \<Rightarrow> client" where
  "onclose c =
     (let c1 = console_log [ArgString ''WebSocket disconnected''] c;
          c2 = c1\<lparr>isConnected := False, wsRef := None\<rparr>
      in if shouldConnectRef c2
         then (let c3 = console_log
                          [ArgString (''Reconnecting in '' @ string_of_nat RECONNECT_DELAY @ ''ms...'')]
                          c2;
                   (h, c4) = setTimeout RECONNECT_DELAY c3
               in c4\<lparr>reconnectTimeoutRef := Some h\<rparr>)
         else c2)"

subsection \<open>The mount effect and clearMessages\<close>

text \<open>\<^verbatim>\<open>useEffect(() => { shouldConnectRef.current = true; connect(); return cleanup; }, [connect])\<close>\<close>

definition mount :: "platform \<Rightarrow> client \<Rightarrow> client" where
  "mount pf c = connect pf (c\<lparr>shouldConnectRef := True\<rparr>)"

text \<open>\<^verbatim>\<open>const clearMessages = useCallback(() => { setMessages([]); }, []);\<close>\<close>

definition clearMessages :: "client \<Rightarrow> client" where
  "clearMessages c = c\<lparr>messages := []\<rparr>"

subsection \<open>What the browser and React do to the hook\<close>

text \<open>
  One event at a time. The browser opens a socket only while it is connecting, delivers a
  frame only while it is open, and reports a lost connection once: the socket becomes
  closed, then (when the connection failed rather than closed normally) \<^verbatim>\<open>onerror\<close>
  runs, then \<^verbatim>\<open>onclose\<close>. A timeout fires once, no earlier than its delay after it was
  set. An event the browser cannot produce in the current state changes nothing.
\<close>

datatype event =
    Mount
  | Unmount
  | SocketOpen nat
  | SocketMessage nat string
  | ConnectionLost nat bool
  | TimerFires nat
  | Elapse nat
  | ClearMessages

definition due :: "client \<Rightarrow> nat \<Rightarrow> bool" where
  "due c h = (filter (\<lambda>t. handle t = h \<and> set_at t + delay t \<le> now c) (timers c) \<noteq> [])"

definition step :: "platform \<Rightarrow> event \<Rightarrow> client \<Rightarrow> client" where
  "step pf e c =
     (case e of
        Mount \<Rightarrow> mount pf c
      | Unmount \<Rightarrow> cleanup c
      | SocketOpen i \<Rightarrow>
          (if socket_readyState c i = Some CONNECTING
           then onopen (set_readyState i OPEN c) else c)
      | SocketMessage i d \<Rightarrow>
          (if socket_readyState c i = Some OPEN then onmessage pf d c else c)
      | ConnectionLost i failed \<Rightarrow>
          (if socket_readyState c i \<in> {Some CONNECTING, Some OPEN, Some CLOSING}
           then (let c1 = set_readyState i CLOSED c;
                     c2 = (if failed then onerror c1 else c1)
                 in onclose c2)
           else c)
      | TimerFires h \<Rightarrow> (if due c h then connect pf (clearTimeout h c) else c)
      | Elapse d \<Rightarrow> c\<lparr>now := now c + d\<rparr>
      | ClearMessages \<Rightarrow> clearMessages c)"

fun run :: "platform \<Rightarrow> event list \<Rightarrow> client \<Rightarrow> client" where
  "run pf [] c = c"
| "run pf (e # es) c = run pf es (step pf e c)"

section \<open>api.startAnalysis (frontend/src/services/api.ts)\<close>

text \<open>An HTTP request as \<^verbatim>\<open>fetch\<close> receives it, and the part of a \<^verbatim>\<open>Response\<close> the code
  reads: \<^verbatim>\<open>response.ok\<close> and what \<^verbatim>\<open>response.json()\<close> settles to (\<open>Inl\<close>: it rejects).\<close>

record http_request =
  request_url :: string
  http_method :: string
  headers :: "(string \<times> string) list"
  body :: "string option"

record Response =
  ok :: bool
  json :: "js_exception + js_value"

text \<open>
  What the service takes from its platform besides: \<^verbatim>\<open>import.meta.env.VITE_API_BASE_URL\<close>,
  \<^verbatim>\<open>fetch\<close> (\<open>Inl\<close>: the promise rejects) and \<^verbatim>\<open>JSON.stringify\<close> on a request.
\<close>

record api_platform = js_engine +
  VITE_API_BASE_URL :: "string option"
  fetch :: "http_request \<Rightarrow> js_exception + Response"
  JSON_stringify :: "AnalysisRequest \<Rightarrow> string"

definition API_BASE_URL :: "api_platform \<Rightarrow> string" where
  "API_BASE_URL pf = (case VITE_API_BASE_URL pf of Some u \<Rightarrow> u | None \<Rightarrow> ''http://localhost:8000'')"

text \<open>
  The component \<^verbatim>\<open>App\<close>: the hook instance it holds, its \<^verbatim>\<open>error\<close> and \<^verbatim>\<open>isStarting\<close>
  cells, and every request it has handed to \<^verbatim>\<open>fetch\<close>. (Its \<^verbatim>\<open>config\<close> and
  \<^verbatim>\<open>isLoadingConfig\<close> cells are not touched by the code below.)
\<close>

record App =
  hook :: client
  error_App :: "string option"
  isStarting :: bool
  fetched :: "http_request list"

text \<open>\<^verbatim>\<open>new Error(v)\<close> for a \<open>v\<close> that is not \<^verbatim>\<open>undefined\<close>: the message is \<open>v\<close> as a string.\<close>

definition new_Error :: "api_platform \<Rightarrow> js_value \<Rightarrow> js_exception + js_exception" where
  "new_Error pf v =
     (case ToString (Number_toString pf) v of
        Inl e \<Rightarrow> Inl e
      | Inr s \<Rightarrow> Inr (ErrorInstance ''Error'' s))"

text \<open>
  \<^verbatim>\<open>
  async startAnalysis(request: AnalysisRequest): Promise<void> {
    console.log(request);
    const response = await fetch(`${API_BASE_URL}/api/start`, {
      method: 'POST',
      headers: { 'Content-Type': 'application/json' },
      body: JSON.stringify(request),
    });
    if (!response.ok) {
      const error = await response.json().catch(() => ({ detail: 'Unknown error' }));
      throw new Error(error.detail || 'Failed to start analysis');
    }
    return response.json();
  }
  \<close>
  The result is how the promise settles (\<open>Inl\<close>: rejected with that exception) and the
  component after the call.
\<close>

definition startAnalysis ::
  "api_platform \<Rightarrow> AnalysisRequest \<Rightarrow> App \<Rightarrow> (js_exception + js_value) \<times> App" where
  "startAnalysis pf request a =
     (let a1 = a\<lparr>hook := console_log [ArgRequest request] (hook a)\<rparr>;
          req = \<lparr> request_url = API_BASE_URL pf @ ''/api/start'',
                  http_method = ''POST'',
                  headers = [(''Content-Type'', ''application/json'')],
                  body = Some (JSON_stringify pf request) \<rparr>;
          a2 = a1\<lparr>fetched := fetched a1 @ [req]\<rparr>
      in case fetch pf req of
           Inl e \<Rightarrow> (Inl e, a2)
         | Inr response \<Rightarrow>
             (if \<not> ok response
              then (let error = (case json response of
                                   Inl _ \<Rightarrow> JObject [(''detail'', JString ''Unknown error'')]
                                 | Inr v \<Rightarrow> v)
                    in case get_property error ''detail'' of
                         Inl e \<Rightarrow> (Inl e, a2)
                       | Inr d \<Rightarrow>
                           (case new_Error pf
                                   (if truthy d then d else JString ''Failed to start analysis'') of
                              Inl e \<Rightarrow> (Inl e, a2)
                            | Inr err \<Rightarrow> (Inl err, a2)))
              else (json response, a2)))"

section \<open>App.handleStartAnalysis (frontend/src/App.tsx)\<close>

text \<open>\<^verbatim>\<open>const depthToValue: Record<ResearchDepth, number> = { quick: 1, standard: 3, deep: 5 };\<close>\<close>

fun depthToValue :: "ResearchDepth \<Rightarrow> int" where
  "depthToValue quick = 1"
| "depthToValue standard = 3"
| "depthToValue deep = 5"

text \<open>
  \<^verbatim>\<open>
  const handleStartAnalysis = async (config: ConfigFormData) => {
    try {
      setError(null);
      setIsStarting(true);
      clearMessages();
      const request = { ticker: config.ticker, analysis_date: config.analysisDate,
        analysts: config.analysts, research_depth: depthToValue[config.researchDepth],
        llm_provider: config.llmProvider, shallow_model: config.shallowModel,
        deep_model: config.deepModel };
      await api.startAnalysis(request);
    } catch (err) {
      const message = err instanceof Error ? err.message : 'Failed to start analysis';
      setError(message);
      console.error('Failed to start analysis:', err);
      setIsStarting(false);
    }
  };
  \<close>
\<close>

definition handleStartAnalysis :: "api_platform \<Rightarrow> ConfigFormData \<Rightarrow> App \<Rightarrow> App" where
  "handleStartAnalysis pf config a =
     (let a1 = a\<lparr>error_App := None\<rparr>;
          a2 = a1\<lparr>isStarting := True\<rparr>;
          a3 = a2\<lparr>hook := clearMessages (hook a2)\<rparr>;
          request = \<lparr> AnalysisRequest.ticker = ConfigFormData.ticker config,
                      analysis_date = analysisDate config,
                      AnalysisRequest.analysts = ConfigFormData.analysts config,
                      research_depth = depthToValue (researchDepth config),
                      llm_provider = llmProvider config,
                      shallow_model = shallowModel config,
                      deep_model = deepModel config \<rparr>;
          (outcome, a4) = startAnalysis pf request a3
      in case outcome of
           Inr _ \<Rightarrow> a4
         | Inl err \<Rightarrow>
             (let message = (case err of
                               ErrorInstance _ m \<Rightarrow> m
                             | Thrown _ \<Rightarrow> ''Failed to start analysis'');
                  a5 = a4\<lparr>error_App := Some message\<rparr>;
                  a6 = a5\<lparr>hook := console_error
                                   [ArgString ''Failed to start analysis:'', ArgException err]
                                   (hook a5)\<rparr>
              in a6\<lparr>isStarting := False\<rparr>))"

text \<open>
  The banner \<^verbatim>\<open>App\<close> renders: \<^verbatim>\<open>{error && (<div className="error-banner">...{error}...</div>)}\<close>.
  Nothing is rendered for \<^verbatim>\<open>null\<close> or for the empty string.
\<close>

definition error_banner :: "App \<Rightarrow> string option" where
  "error_banner a =
     (case error_App a of None \<Rightarrow> None | Some m \<Rightarrow> if m = [] then None else Some m)"


section \<open>Definitions used to state and exemplify the properties\<close>

subsection \<open>Notions the statements use\<close>

text \<open>Two clients that agree after \<open>forget_console\<close> differ at most in what was written to
  the console.\<close>

definition forget_console :: "client \<Rightarrow> client" where
  "forget_console c = c\<lparr>console := []\<rparr>"

text \<open>The guard of \<^verbatim>\<open>connect\<close>, named.\<close>

definition connect_blocked :: "client \<Rightarrow> bool" where
  "connect_blocked c =
     ((case wsRef c of None \<Rightarrow> False | Some i \<Rightarrow> socket_readyState c i = Some OPEN)
      \<or> \<not> shouldConnectRef c)"

text \<open>A socket the browser can still report lost: it exists and is not yet closed.\<close>

definition live :: "client \<Rightarrow> nat \<Rightarrow> bool" where
  "live c i = (socket_readyState c i \<in> {Some CONNECTING, Some OPEN, Some CLOSING})"

text \<open>Timeout handles are never reused, and every pending timeout was set with the
  reconnect delay.\<close>

definition handles_fresh :: "client \<Rightarrow> bool" where
  "handles_fresh c \<longleftrightarrow>
     (\<forall>t \<in> set (timers c). handle t < next_handle c \<and> delay t = RECONNECT_DELAY)"

text \<open>
  A run of connection losses, one per entry of the list (\<open>True\<close>: the connection failed,
  \<open>False\<close>: it closed normally): the current socket \<open>i\<close> is lost, the reconnect delay
  passes, the timeout \<open>h\<close> fires; the next loss hits the next socket and the next handle.
\<close>

fun lose_and_retry :: "nat \<Rightarrow> nat \<Rightarrow> bool list \<Rightarrow> event list" where
  "lose_and_retry i h [] = []"
| "lose_and_retry i h (failed # fs) =
     [ConnectionLost i failed, Elapse RECONNECT_DELAY, TimerFires h]
       @ lose_and_retry (Suc i) (Suc h) fs"

text \<open>The request \<^verbatim>\<open>startAnalysis\<close> hands to \<^verbatim>\<open>fetch\<close>, and the request
  \<^verbatim>\<open>handleStartAnalysis\<close> builds from the form, named.\<close>

definition start_request :: "api_platform \<Rightarrow> AnalysisRequest \<Rightarrow> http_request" where
  "start_request pf request =
     \<lparr> request_url = API_BASE_URL pf @ ''/api/start'',
       http_method = ''POST'',
       headers = [(''Content-Type'', ''application/json'')],
       body = Some (JSON_stringify pf request) \<rparr>"

definition request_of :: "ConfigFormData \<Rightarrow> AnalysisRequest" where
  "request_of config =
     \<lparr> AnalysisRequest.ticker = ConfigFormData.ticker config,
       analysis_date = analysisDate config,
       AnalysisRequest.analysts = ConfigFormData.analysts config,
       research_depth = depthToValue (researchDepth config),
       llm_provider = llmProvider config,
       shallow_model = shallowModel config,
       deep_model = deepModel config \<rparr>"

subsection \<open>Worked examples\<close>

text \<open>A platform for the examples: it parses the frames below and rejects every other
  one, renders a timestamp by cutting the time out of an ISO date, and writes a number in
  decimal digits.\<close>

definition sample_platform :: platform where
  \<open>sample_platform = \<lparr>
     Number_toString = (\<lambda>n. (if n < 0 then ''-'' else []) @ string_of_nat (nat \<bar>n\<bar>)),
     VITE_WS_URL = None,
     JSON_parse = (\<lambda>s.
       if s = ''{"type":"ping"}'' then Inr (JObject [(''type'', JString ''ping'')])
       else if s = ''{"type":"log","message":"Fetching news...","ts":"2024-05-01T09:30:00"}''
         then Inr (JObject [(''type'', JString ''log''), (''message'', JString ''Fetching news...''),
                            (''ts'', JString ''2024-05-01T09:30:00'')])
       else if s = ''{"type":"status","state":"running"}''
         then Inr (JObject [(''type'', JString ''status''), (''state'', JString ''running'')])
       else if s = ''{"type":"result","payload":{"decision":"BUY"}}''
         then Inr (JObject [(''type'', JString ''result''),
                            (''payload'', JObject [(''decision'', JString ''BUY'')])])
       else if s = ''{"type":"result","payload":{"decision":"SELL"}}''
         then Inr (JObject [(''type'', JString ''result''),
                            (''payload'', JObject [(''decision'', JString ''SELL'')])])
       else if s = ''{"type":"status"}'' then Inr (JObject [(''type'', JString ''status'')])
       else if s = ''{"type":"log"}'' then Inr (JObject [(''type'', JString ''log'')])
       else if s = ''{"type":"progress","percent":40}''
         then Inr (JObject [(''type'', JString ''progress''), (''percent'', JNumber 40)])
       else if s = ''null'' then Inr JNull
       else Inl (ErrorInstance ''SyntaxError'' ''Unexpected token'')),
     toLocaleTimeString = (\<lambda>ts. take 8 (drop 11 ts)),
     toLocaleTimeString_ms = (\<lambda>n. ''00:00:00'') \<rparr>\<close>

text \<open>A client that has mounted, connected and received one log line.\<close>

definition sample_connected :: client where
  \<open>sample_connected =
     run sample_platform
       [Mount, SocketOpen 0,
        SocketMessage 0 ''{"type":"log","message":"Fetching news...","ts":"2024-05-01T09:30:00"}'']
       initial\<close>

text \<open>A server for the examples: it refuses a start for five tickers, with a detail
  message, with a body that is not JSON, with an empty detail, with an empty list as
  detail, and with the body \<^verbatim>\<open>null\<close>.\<close>

definition sample_api :: api_platform where
  "sample_api = \<lparr>
     Number_toString = (\<lambda>n. (if n < 0 then ''-'' else []) @ string_of_nat (nat \<bar>n\<bar>)),
     VITE_API_BASE_URL = None,
     fetch = (\<lambda>req.
       if body req = Some ''TSLA''
         then Inr \<lparr> ok = False,
                    json = Inr (JObject [(''detail'', JString ''Analysis already running'')]) \<rparr>
       else if body req = Some ''AAPL''
         then Inr \<lparr> ok = False, json = Inl (ErrorInstance ''SyntaxError'' ''Unexpected token'') \<rparr>
       else if body req = Some ''MSFT''
         then Inr \<lparr> ok = False, json = Inr (JObject [(''detail'', JString [])]) \<rparr>
       else if body req = Some ''NVDA''
         then Inr \<lparr> ok = False, json = Inr (JObject [(''detail'', JArray [])]) \<rparr>
       else if body req = Some ''AMZN''
         then Inr \<lparr> ok = False, json = Inr JNull \<rparr>
       else Inr \<lparr> ok = True, json = Inr (JObject [(''status'', JString ''started'')]) \<rparr>),
     JSON_stringify = AnalysisRequest.ticker \<rparr>"

definition sample_config :: "string \<Rightarrow> ConfigFormData" where
  "sample_config t = \<lparr>
     ConfigFormData.ticker = t, analysisDate = ''2024-05-01'',
     ConfigFormData.analysts =
       \<lparr> market = True, social = False, news = True, fundamentals = True, momentum = False \<rparr>,
     researchDepth = standard, llmProvider = openai,
     shallowModel = ''gpt-4o-mini'', deepModel = ''gpt-4o'' \<rparr>"

definition sample_app :: App where
  "sample_app = \<lparr> hook = sample_connected, error_App = None, isStarting = False, fetched = [] \<rparr>"

section \<open>Auxiliary facts\<close>

lemmas prim_defs = console_log_def console_error_def socket_readyState_def set_readyState_def
  new_WebSocket_def WebSocket_close_def setTimeout_def clearTimeout_def truthy_handle_def

subsection \<open>No handler reads the console\<close>

lemma fc_connect:
  "forget_console (connect pf (c\<lparr>console := k\<rparr>)) = forget_console (connect pf c)"
  by (simp add: connect_def forget_console_def prim_defs Let_def split: option.splits)

lemma fc_onopen:
  "forget_console (onopen (c\<lparr>console := k\<rparr>)) = forget_console (onopen c)"
  by (simp add: onopen_def forget_console_def prim_defs Let_def split: option.splits)

lemma fc_onerror:
  "forget_console (onerror (c\<lparr>console := k\<rparr>)) = forget_console (onerror c)"
  by (simp add: onerror_def forget_console_def prim_defs)

lemma fc_onclose:
  "forget_console (onclose (c\<lparr>console := k\<rparr>)) = forget_console (onclose c)"
  by (simp add: onclose_def forget_console_def prim_defs Let_def)

lemma fc_cleanup:
  "forget_console (cleanup (c\<lparr>console := k\<rparr>)) = forget_console (cleanup c)"
  by (simp add: cleanup_def forget_console_def prim_defs Let_def split: option.splits readyState.splits)

lemma fc_setMessages_appended:
  "forget_console (setMessages_appended pf t data (c\<lparr>console := k\<rparr>))
     = forget_console (setMessages_appended pf t data c)"
  by (simp add: setMessages_appended_def fc_cleanup split: sum.splits)
     (simp add: forget_console_def)

lemma fc_onmessage:
  "forget_console (onmessage pf d (c\<lparr>console := k\<rparr>)) = forget_console (onmessage pf d c)"
  by (simp add: onmessage_def onmessage_try_def fc_setMessages_appended split: sum.splits)
     (simp add: forget_console_def console_log_def console_error_def)

lemma fc_mount:
  "forget_console (mount pf (c\<lparr>console := k\<rparr>)) = forget_console (mount pf c)"
proof -
  have "c\<lparr>console := k, shouldConnectRef := True\<rparr> = c\<lparr>shouldConnectRef := True, console := k\<rparr>"
    by simp
  then show ?thesis
    unfolding mount_def using fc_connect by metis
qed

lemma socket_readyState_console [simp]:
  "socket_readyState (c\<lparr>console := k\<rparr>) i = socket_readyState c i"
  by (simp add: socket_readyState_def)

lemma set_readyState_console [simp]:
  "set_readyState i r (c\<lparr>console := k\<rparr>) = (set_readyState i r c)\<lparr>console := k\<rparr>"
  by (simp add: set_readyState_def)

lemma clearTimeout_console [simp]:
  "clearTimeout h (c\<lparr>console := k\<rparr>) = (clearTimeout h c)\<lparr>console := k\<rparr>"
  by (simp add: clearTimeout_def)

lemma due_console [simp]: "due (c\<lparr>console := k\<rparr>) h = due c h"
  by (simp add: due_def)

lemma onerror_console_only: "\<exists>k. onerror c = c\<lparr>console := k\<rparr>"
  unfolding onerror_def console_error_def by (rule exI) (rule refl)

lemma fc_step:
  "forget_console (step pf e (c\<lparr>console := k\<rparr>)) = forget_console (step pf e c)"
proof (cases e)
  case Mount
  then show ?thesis by (simp add: step_def fc_mount)
next
  case Unmount
  then show ?thesis by (simp add: step_def fc_cleanup)
next
  case (SocketOpen i)
  then show ?thesis by (simp add: step_def fc_onopen) (simp add: forget_console_def)
next
  case (SocketMessage i d)
  then show ?thesis by (simp add: step_def fc_onmessage) (simp add: forget_console_def)
next
  case (ConnectionLost i failed)
  have "forget_console (onclose (onerror x)) = forget_console (onclose x)" for x
  proof -
    obtain k' where "onerror x = x\<lparr>console := k'\<rparr>"
      using onerror_console_only by blast
    then show ?thesis by (simp add: fc_onclose)
  qed
  then show ?thesis using ConnectionLost
    by (simp add: step_def fc_onclose Let_def) (simp add: forget_console_def)
next
  case (TimerFires h)
  then show ?thesis by (simp add: step_def fc_connect) (simp add: forget_console_def)
next
  case (Elapse d)
  then show ?thesis by (simp add: step_def forget_console_def)
next
  case ClearMessages
  then show ?thesis by (simp add: step_def forget_console_def clearMessages_def)
qed

lemma fc_eqD: "forget_console c = forget_console c' \<Longrightarrow> c' = c\<lparr>console := console c'\<rparr>"
proof -
  assume "forget_console c = forget_console c'"
  then have "(forget_console c)\<lparr>console := console c'\<rparr> = (forget_console c')\<lparr>console := console c'\<rparr>"
    by simp
  then show ?thesis by (simp add: forget_console_def)
qed

lemma fc_step_cong:
  assumes "forget_console c = forget_console c'"
  shows "forget_console (step pf e c) = forget_console (step pf e c')"
proof -
  obtain k where "c' = c\<lparr>console := k\<rparr>" using fc_eqD [OF assms] by blast
  then show ?thesis by (simp add: fc_step)
qed

lemma fc_run_cong:
  "forget_console c = forget_console c' \<Longrightarrow>
   forget_console (run pf es c) = forget_console (run pf es c')"
proof (induction es arbitrary: c c')
  case Nil
  then show ?case by simp
next
  case (Cons e es)
  have "forget_console (step pf e c) = forget_console (step pf e c')"
    using Cons.prems by (rule fc_step_cong)
  then have "forget_console (run pf es (step pf e c)) = forget_console (run pf es (step pf e c'))"
    by (rule Cons.IH)
  then show ?case by simp
qed

subsection \<open>What each handler does to each field\<close>

lemma console_log_fields [simp]:
  "isConnected (console_log a c) = isConnected c"
  "messages (console_log a c) = messages c"
  "state (console_log a c) = state c"
  "wsRef (console_log a c) = wsRef c"
  "reconnectTimeoutRef (console_log a c) = reconnectTimeoutRef c"
  "shouldConnectRef (console_log a c) = shouldConnectRef c"
  "sockets (console_log a c) = sockets c"
  "timers (console_log a c) = timers c"
  "next_handle (console_log a c) = next_handle c"
  "now (console_log a c) = now c"
  by (simp_all add: console_log_def)

lemma onerror_fields [simp]:
  "isConnected (onerror c) = isConnected c"
  "messages (onerror c) = messages c"
  "state (onerror c) = state c"
  "wsRef (onerror c) = wsRef c"
  "reconnectTimeoutRef (onerror c) = reconnectTimeoutRef c"
  "shouldConnectRef (onerror c) = shouldConnectRef c"
  "sockets (onerror c) = sockets c"
  "timers (onerror c) = timers c"
  "next_handle (onerror c) = next_handle c"
  "now (onerror c) = now c"
  by (simp_all add: onerror_def console_error_def)

lemma set_readyState_fields [simp]:
  "isConnected (set_readyState i r c) = isConnected c"
  "messages (set_readyState i r c) = messages c"
  "state (set_readyState i r c) = state c"
  "wsRef (set_readyState i r c) = wsRef c"
  "reconnectTimeoutRef (set_readyState i r c) = reconnectTimeoutRef c"
  "shouldConnectRef (set_readyState i r c) = shouldConnectRef c"
  "timers (set_readyState i r c) = timers c"
  "next_handle (set_readyState i r c) = next_handle c"
  "now (set_readyState i r c) = now c"
  "console (set_readyState i r c) = console c"
  "length (sockets (set_readyState i r c)) = length (sockets c)"
  by (simp_all add: set_readyState_def)

lemma socket_readyState_set:
  "socket_readyState (set_readyState i r c) j =
     (if j < length (sockets c) then (if j = i then Some r else socket_readyState c j) else None)"
  by (simp add: socket_readyState_def set_readyState_def nth_list_update)

lemma clearTimeout_fields [simp]:
  "isConnected (clearTimeout h c) = isConnected c"
  "messages (clearTimeout h c) = messages c"
  "state (clearTimeout h c) = state c"
  "wsRef (clearTimeout h c) = wsRef c"
  "reconnectTimeoutRef (clearTimeout h c) = reconnectTimeoutRef c"
  "shouldConnectRef (clearTimeout h c) = shouldConnectRef c"
  "sockets (clearTimeout h c) = sockets c"
  "timers (clearTimeout h c) = filter (\<lambda>t. handle t \<noteq> h) (timers c)"
  "next_handle (clearTimeout h c) = next_handle c"
  "now (clearTimeout h c) = now c"
  "console (clearTimeout h c) = console c"
  by (simp_all add: clearTimeout_def)

lemma onclose_fields [simp]:
  "isConnected (onclose c) = False"
  "messages (onclose c) = messages c"
  "state (onclose c) = state c"
  "wsRef (onclose c) = None"
  "reconnectTimeoutRef (onclose c) =
     (if shouldConnectRef c then Some (next_handle c) else reconnectTimeoutRef c)"
  "shouldConnectRef (onclose c) = shouldConnectRef c"
  "sockets (onclose c) = sockets c"
  "timers (onclose c) =
     (if shouldConnectRef c
      then timers c @ [\<lparr> handle = next_handle c, set_at = now c, delay = RECONNECT_DELAY \<rparr>]
      else timers c)"
  "next_handle (onclose c) = (if shouldConnectRef c then Suc (next_handle c) else next_handle c)"
  "now (onclose c) = now c"
  by (simp_all add: onclose_def console_log_def setTimeout_def Let_def)

lemma onopen_fields [simp]:
  "isConnected (onopen c) = True"
  "messages (onopen c) = messages c"
  "state (onopen c) = state c"
  "wsRef (onopen c) = wsRef c"
  "reconnectTimeoutRef (onopen c) =
     (case reconnectTimeoutRef c of
        Some h \<Rightarrow> if h \<noteq> 0 then None else Some h
      | None \<Rightarrow> None)"
  "shouldConnectRef (onopen c) = shouldConnectRef c"
  "sockets (onopen c) = sockets c"
  "timers (onopen c) =
     (case reconnectTimeoutRef c of
        Some h \<Rightarrow> if h \<noteq> 0 then filter (\<lambda>t. handle t \<noteq> h) (timers c) else timers c
      | None \<Rightarrow> timers c)"
  "next_handle (onopen c) = next_handle c"
  "now (onopen c) = now c"
  by (simp_all add: onopen_def console_log_def clearTimeout_def truthy_handle_def Let_def
        split: option.splits)

lemma connect_blocked: "connect_blocked c \<Longrightarrow> connect pf c = c"
  by (simp add: connect_def connect_blocked_def)

lemma connect_fields [simp]:
  "isConnected (connect pf c) = isConnected c"
  "messages (connect pf c) = messages c"
  "state (connect pf c) = state c"
  "reconnectTimeoutRef (connect pf c) = reconnectTimeoutRef c"
  "shouldConnectRef (connect pf c) = shouldConnectRef c"
  "timers (connect pf c) = timers c"
  "next_handle (connect pf c) = next_handle c"
  "now (connect pf c) = now c"
  by (simp_all add: connect_def console_log_def new_WebSocket_def Let_def)

lemma connect_sockets:
  "sockets (connect pf c) =
     (if connect_blocked c then sockets c
      else sockets c @ [\<lparr> url = WS_URL pf, readyState = CONNECTING \<rparr>])"
  "wsRef (connect pf c) =
     (if connect_blocked c then wsRef c else Some (length (sockets c)))"
  by (simp_all add: connect_def connect_blocked_def console_log_def new_WebSocket_def Let_def)

lemma clearMessages_fields [simp]:
  "isConnected (clearMessages c) = isConnected c"
  "messages (clearMessages c) = []"
  "state (clearMessages c) = state c"
  "wsRef (clearMessages c) = wsRef c"
  "reconnectTimeoutRef (clearMessages c) = reconnectTimeoutRef c"
  "shouldConnectRef (clearMessages c) = shouldConnectRef c"
  "sockets (clearMessages c) = sockets c"
  "timers (clearMessages c) = timers c"
  "next_handle (clearMessages c) = next_handle c"
  "now (clearMessages c) = now c"
  by (simp_all add: clearMessages_def)

lemma WebSocket_close_fields [simp]:
  "isConnected (WebSocket_close i c) = isConnected c"
  "messages (WebSocket_close i c) = messages c"
  "state (WebSocket_close i c) = state c"
  "wsRef (WebSocket_close i c) = wsRef c"
  "reconnectTimeoutRef (WebSocket_close i c) = reconnectTimeoutRef c"
  "shouldConnectRef (WebSocket_close i c) = shouldConnectRef c"
  "timers (WebSocket_close i c) = timers c"
  "next_handle (WebSocket_close i c) = next_handle c"
  "now (WebSocket_close i c) = now c"
  "length (sockets (WebSocket_close i c)) = length (sockets c)"
  by (simp_all add: WebSocket_close_def split: option.splits readyState.splits)

lemma cleanup_fields [simp]:
  "isConnected (cleanup c) = isConnected c"
  "messages (cleanup c) = messages c"
  "state (cleanup c) = state c"
  "wsRef (cleanup c) = None"
  "reconnectTimeoutRef (cleanup c) = reconnectTimeoutRef c"
  "shouldConnectRef (cleanup c) = False"
  "timers (cleanup c) =
     (case reconnectTimeoutRef c of
        Some h \<Rightarrow> if h \<noteq> 0 then filter (\<lambda>t. handle t \<noteq> h) (timers c) else timers c
      | None \<Rightarrow> timers c)"
  "next_handle (cleanup c) = next_handle c"
  "now (cleanup c) = now c"
  "length (sockets (cleanup c)) = length (sockets c)"
  by (simp_all add: cleanup_def truthy_handle_def Let_def split: option.splits)

lemma onmessage_cases:
  "(\<exists>k. onmessage pf d c = c\<lparr>console := k\<rparr>)
   \<or> (\<exists>x. onmessage pf d c = c\<lparr>messages := messages c @ [x]\<rparr>)
   \<or> (\<exists>s. onmessage pf d c = c\<lparr>state := s\<rparr>)
   \<or> onmessage pf d c = cleanup c"
proof -
  have same: "\<exists>k. c = c\<lparr>console := k\<rparr>"
    by (rule exI [of _ "console c"]) simp
  have app: "(\<exists>x. setMessages_appended pf t data c = c\<lparr>messages := messages c @ [x]\<rparr>)
             \<or> setMessages_appended pf t data c = cleanup c" for t data
    by (auto simp: setMessages_appended_def split: sum.splits)
  show ?thesis
  proof (cases "onmessage_try pf d c")
    case (Inl e)
    then have "\<exists>k. onmessage pf d c = c\<lparr>console := k\<rparr>"
      unfolding onmessage_def console_error_def by (simp only: sum.case) (rule exI, rule refl)
    then show ?thesis by blast
  next
    case (Inr c')
    then have c': "onmessage pf d c = c'" by (simp add: onmessage_def)
    from Inr have "c' = c
        \<or> (\<exists>t data. c' = setMessages_appended pf t data c)
        \<or> (\<exists>s. c' = c\<lparr>state := s\<rparr>)
        \<or> (\<exists>k. c' = c\<lparr>console := k\<rparr>)"
      by (auto simp: onmessage_try_def console_log_def split: sum.splits if_splits)
    then show ?thesis
      using same app unfolding c' by metis
  qed
qed

lemma onmessage_fields [simp]:
  "isConnected (onmessage pf d c) = isConnected c"
  "reconnectTimeoutRef (onmessage pf d c) = reconnectTimeoutRef c"
  "next_handle (onmessage pf d c) = next_handle c"
  "now (onmessage pf d c) = now c"
  "length (sockets (onmessage pf d c)) = length (sockets c)"
  using onmessage_cases [of pf d c] by auto

lemma onmessage_messages: "\<exists>ys. messages (onmessage pf d c) = messages c @ ys"
  using onmessage_cases [of pf d c] by auto

lemma onmessage_intent: "shouldConnectRef (onmessage pf d c) \<Longrightarrow> shouldConnectRef c"
  using onmessage_cases [of pf d c] by auto

lemma onmessage_timers: "set (timers (onmessage pf d c)) \<subseteq> set (timers c)"
  using onmessage_cases [of pf d c] by (auto split: option.splits if_splits)

lemma mount_fields [simp]:
  "isConnected (mount pf c) = isConnected c"
  "messages (mount pf c) = messages c"
  "state (mount pf c) = state c"
  "reconnectTimeoutRef (mount pf c) = reconnectTimeoutRef c"
  "shouldConnectRef (mount pf c) = True"
  "timers (mount pf c) = timers c"
  "next_handle (mount pf c) = next_handle c"
  "now (mount pf c) = now c"
  by (simp_all add: mount_def)

subsection \<open>Events\<close>

lemma step_simps:
  "step pf Mount c = mount pf c"
  "step pf Unmount c = cleanup c"
  "step pf (SocketOpen i) c =
     (if socket_readyState c i = Some CONNECTING then onopen (set_readyState i OPEN c) else c)"
  "step pf (SocketMessage i d) c =
     (if socket_readyState c i = Some OPEN then onmessage pf d c else c)"
  "step pf (TimerFires h) c = (if due c h then connect pf (clearTimeout h c) else c)"
  "step pf (Elapse n) c = c\<lparr>now := now c + n\<rparr>"
  "step pf ClearMessages c = clearMessages c"
  by (simp_all add: step_def)

lemma step_ConnectionLost_dead:
  "\<not> live c i \<Longrightarrow> step pf (ConnectionLost i failed) c = c"
  by (simp add: step_def live_def)

lemma step_ConnectionLost:
  "live c i \<Longrightarrow>
   step pf (ConnectionLost i failed) c
     = onclose (if failed then onerror (set_readyState i CLOSED c) else set_readyState i CLOSED c)"
  by (simp add: step_def live_def Let_def)

lemma lost_fields:
  assumes "live c i"
  shows "isConnected (step pf (ConnectionLost i failed) c) = False"
    and "messages (step pf (ConnectionLost i failed) c) = messages c"
    and "state (step pf (ConnectionLost i failed) c) = state c"
    and "wsRef (step pf (ConnectionLost i failed) c) = None"
    and "shouldConnectRef (step pf (ConnectionLost i failed) c) = shouldConnectRef c"
    and "length (sockets (step pf (ConnectionLost i failed) c)) = length (sockets c)"
    and "now (step pf (ConnectionLost i failed) c) = now c"
    and "timers (step pf (ConnectionLost i failed) c) =
           (if shouldConnectRef c
            then timers c @ [\<lparr> handle = next_handle c, set_at = now c, delay = RECONNECT_DELAY \<rparr>]
            else timers c)"
    and "next_handle (step pf (ConnectionLost i failed) c) =
           (if shouldConnectRef c then Suc (next_handle c) else next_handle c)"
    and "reconnectTimeoutRef (step pf (ConnectionLost i failed) c) =
           (if shouldConnectRef c then Some (next_handle c) else reconnectTimeoutRef c)"
  using assms by (simp_all add: step_ConnectionLost)

lemma lost_socket_states:
  assumes "live c i"
  shows "socket_readyState (step pf (ConnectionLost i failed) c) j =
           (if j = i then Some CLOSED else socket_readyState c j)"
  using assms
  by (auto simp add: step_ConnectionLost socket_readyState_def set_readyState_def live_def
        nth_list_update)

lemma run_append: "run pf (xs @ ys) c = run pf ys (run pf xs c)"
  by (induction xs arbitrary: c) simp_all

lemma step_keeps_log:
  assumes "e \<noteq> ClearMessages"
  shows "\<exists>ys. messages (step pf e c) = messages c @ ys"
proof (cases e)
  case (SocketMessage i d)
  then show ?thesis using onmessage_messages [of pf d c] by (simp add: step_simps)
next
  case (ConnectionLost i failed)
  then show ?thesis
    by (cases "live c i") (simp_all add: lost_fields step_ConnectionLost_dead)
qed (use assms in \<open>simp_all add: step_simps\<close>)

lemma run_keeps_log:
  "ClearMessages \<notin> set es \<Longrightarrow> \<exists>ys. messages (run pf es c) = messages c @ ys"
proof (induction es arbitrary: c)
  case Nil
  then show ?case by simp
next
  case (Cons e es)
  from Cons.prems have "e \<noteq> ClearMessages" "ClearMessages \<notin> set es" by auto
  then obtain ys zs where "messages (step pf e c) = messages c @ ys"
    "messages (run pf es (step pf e c)) = messages (step pf e c) @ zs"
    using step_keeps_log Cons.IH by blast
  then show ?case by simp
qed

subsection \<open>One loss, one retry\<close>

lemma due_after_delay:
  assumes "live c i" "shouldConnectRef c" "RECONNECT_DELAY \<le> d"
  shows "due (step pf (Elapse d) (step pf (ConnectionLost i failed) c)) (next_handle c)"
proof -
  let ?c1 = "step pf (ConnectionLost i failed) c"
  have "timers (step pf (Elapse d) ?c1) = timers ?c1" "now (step pf (Elapse d) ?c1) = now c + d"
    using assms by (simp_all add: step_simps lost_fields)
  then show ?thesis
    using assms by (simp add: due_def lost_fields)
qed

lemma retry_connects:
  assumes "live c i" "shouldConnectRef c" "RECONNECT_DELAY \<le> d"
      and c3_def: "c3 = run pf [ConnectionLost i failed, Elapse d, TimerFires (next_handle c)] c"
  shows "sockets c3 = sockets (step pf (ConnectionLost i failed) c)
                        @ [\<lparr> url = WS_URL pf, readyState = CONNECTING \<rparr>]"
    and "wsRef c3 = Some (length (sockets c))"
    and "shouldConnectRef c3"
    and "messages c3 = messages c"
    and "state c3 = state c"
    and "isConnected c3 = False"
    and "next_handle c3 = Suc (next_handle c)"
    and "now c3 = now c + d"
    and "reconnectTimeoutRef c3 = Some (next_handle c)"
    and "timers c3 = filter (\<lambda>t. handle t \<noteq> next_handle c) (timers c)"
proof -
  let ?c1 = "step pf (ConnectionLost i failed) c"
  let ?c2 = "step pf (Elapse d) ?c1"
  let ?k = "clearTimeout (next_handle c) ?c2"
  have c2: "?c2 = ?c1\<lparr>now := now ?c1 + d\<rparr>" by (simp add: step_simps)
  have c3: "c3 = connect pf ?k"
    using due_after_delay [OF assms(1-3), of pf failed] by (simp add: c3_def step_simps(5))
  have nb: "\<not> connect_blocked ?k"
    using assms(1,2) by (simp add: connect_blocked_def c2 lost_fields)
  show "sockets c3 = sockets ?c1 @ [\<lparr> url = WS_URL pf, readyState = CONNECTING \<rparr>]"
    using nb by (simp add: c3 connect_sockets c2)
  show "wsRef c3 = Some (length (sockets c))"
    using nb assms(1) by (simp add: c3 connect_sockets c2 lost_fields)
  show "shouldConnectRef c3" "messages c3 = messages c" "state c3 = state c"
       "isConnected c3 = False" "next_handle c3 = Suc (next_handle c)" "now c3 = now c + d"
       "reconnectTimeoutRef c3 = Some (next_handle c)"
    using assms(1,2) by (simp_all add: c3 c2 lost_fields)
  show "timers c3 = filter (\<lambda>t. handle t \<noteq> next_handle c) (timers c)"
    using assms(1,2) by (simp add: c3 c2 lost_fields)
qed

lemma retry_cycle:
  assumes "live c i" "shouldConnectRef c" "Suc i = length (sockets c)"
      and "c3 = run pf [ConnectionLost i failed, Elapse RECONNECT_DELAY, TimerFires (next_handle c)] c"
  shows "live c3 (Suc i)" "shouldConnectRef c3" "Suc (Suc i) = length (sockets c3)"
        "next_handle c3 = Suc (next_handle c)" "now c3 = now c + RECONNECT_DELAY"
        "wsRef c3 = Some (Suc i)"
proof -
  note r = retry_connects [OF assms(1,2) order_refl assms(4)]
  have len: "length (sockets (step pf (ConnectionLost i failed) c)) = Suc i"
    using assms(1,3) by (simp add: lost_fields)
  show "live c3 (Suc i)"
    using r(1) len by (simp add: live_def socket_readyState_def nth_append)
  show "shouldConnectRef c3" by (rule r(3))
  show "Suc (Suc i) = length (sockets c3)" using r(1) len by simp
  show "next_handle c3 = Suc (next_handle c)" by (rule r(7))
  show "now c3 = now c + RECONNECT_DELAY" by (rule r(8))
  show "wsRef c3 = Some (Suc i)" using r(2) assms(3) by simp
qed

lemma retries_unbounded:
  assumes "live c i" "shouldConnectRef c" "Suc i = length (sockets c)"
  shows "length (sockets (run pf (lose_and_retry i (next_handle c) fs) c))
           = length (sockets c) + length fs
       \<and> now (run pf (lose_and_retry i (next_handle c) fs) c)
           = now c + length fs * RECONNECT_DELAY
       \<and> shouldConnectRef (run pf (lose_and_retry i (next_handle c) fs) c)
       \<and> live (run pf (lose_and_retry i (next_handle c) fs) c) (i + length fs)"
  using assms
proof (induction fs arbitrary: c i)
  case Nil
  then show ?case by simp
next
  case (Cons f fs)
  obtain c3 where c3: "c3 = run pf [ConnectionLost i f, Elapse RECONNECT_DELAY,
                                    TimerFires (next_handle c)] c"
    by simp
  note r = retry_cycle [OF Cons.prems c3]
  have "run pf (lose_and_retry i (next_handle c) (f # fs)) c
          = run pf (lose_and_retry (Suc i) (Suc (next_handle c)) fs) c3"
    by (simp only: lose_and_retry.simps run_append c3)
  then have split: "run pf (lose_and_retry i (next_handle c) (f # fs)) c
          = run pf (lose_and_retry (Suc i) (next_handle c3) fs) c3"
    by (simp only: r(4))
  have len: "length (sockets c3) = Suc (length (sockets c))"
    using r(3) Cons.prems(3) by simp
  from Cons.IH [OF r(1) r(2) r(3)]
  have "length (sockets (run pf (lose_and_retry (Suc i) (next_handle c3) fs) c3))
           = length (sockets c3) + length fs"
    and "now (run pf (lose_and_retry (Suc i) (next_handle c3) fs) c3)
           = now c3 + length fs * RECONNECT_DELAY"
    and "shouldConnectRef (run pf (lose_and_retry (Suc i) (next_handle c3) fs) c3)"
    and "live (run pf (lose_and_retry (Suc i) (next_handle c3) fs) c3) (Suc i + length fs)"
    by blast+
  then show ?case
    unfolding split by (simp add: len r(5))
qed

subsection \<open>Timeout handles\<close>

lemma hf_step:
  assumes "handles_fresh c"
  shows "handles_fresh (step pf e c)"
proof (cases e)
  case (SocketOpen i)
  then show ?thesis using assms
    by (auto simp: step_simps handles_fresh_def split: option.splits)
next
  case (ConnectionLost i f)
  then show ?thesis using assms
    by (cases "live c i") (auto simp: lost_fields step_ConnectionLost_dead handles_fresh_def)
next
  case Unmount
  then show ?thesis using assms
    by (auto simp: step_simps handles_fresh_def split: option.splits)
next
  case (SocketMessage i d)
  then show ?thesis using assms onmessage_timers [of pf d c]
    by (auto simp: step_simps handles_fresh_def)
qed (use assms in \<open>auto simp: step_simps handles_fresh_def\<close>)

lemma hf_run: "handles_fresh c \<Longrightarrow> handles_fresh (run pf es c)"
  by (induction es arbitrary: c) (simp_all add: hf_step)

lemma hf_reachable: "handles_fresh (run pf es initial)"
  by (rule hf_run) (simp add: handles_fresh_def initial_def)

lemma not_due_before_delay:
  assumes "handles_fresh c" "live c i" "shouldConnectRef c" "d < RECONNECT_DELAY"
  shows "\<not> due (step pf (Elapse d) (step pf (ConnectionLost i failed) c)) (next_handle c)"
proof -
  let ?c1 = "step pf (ConnectionLost i failed) c"
  have "timers (step pf (Elapse d) ?c1)
          = timers c @ [\<lparr> handle = next_handle c, set_at = now c, delay = RECONNECT_DELAY \<rparr>]"
       "now (step pf (Elapse d) ?c1) = now c + d"
    using assms by (simp_all add: step_simps lost_fields)
  moreover have "\<forall>t \<in> set (timers c). handle t \<noteq> next_handle c"
    using assms(1) by (auto simp: handles_fresh_def)
  ultimately show ?thesis
    using assms(4) by (auto simp: due_def filter_empty_conv)
qed

subsection \<open>After the cleanup\<close>

text \<open>Once the intent is false it stays false until the next mount, and until then no
  socket is constructed and no timeout is set, whatever the state the cleanup ran in.\<close>

lemma idle_step:
  assumes "\<not> shouldConnectRef c" "e \<noteq> Mount"
  shows "\<not> shouldConnectRef (step pf e c)"
    and "length (sockets (step pf e c)) = length (sockets c)"
    and "next_handle (step pf e c) = next_handle c"
proof -
  have cb: "connect_blocked k" if "\<not> shouldConnectRef k" for k
    using that by (simp add: connect_blocked_def)
  have "\<not> shouldConnectRef (step pf e c) \<and> length (sockets (step pf e c)) = length (sockets c)
        \<and> next_handle (step pf e c) = next_handle c"
  proof (cases e)
    case (ConnectionLost i f)
    then show ?thesis using assms(1)
      by (cases "live c i") (simp_all add: lost_fields step_ConnectionLost_dead)
  next
    case (TimerFires h)
    then show ?thesis using assms(1) cb [of "clearTimeout h c"]
      by (simp add: step_simps connect_sockets)
  next
    case (SocketMessage i d)
    then show ?thesis using assms(1) onmessage_intent [of pf d c]
      by (auto simp: step_simps)
  qed (use assms in \<open>simp_all add: step_simps\<close>)
  then show "\<not> shouldConnectRef (step pf e c)"
    and "length (sockets (step pf e c)) = length (sockets c)"
    and "next_handle (step pf e c) = next_handle c" by simp_all
qed

lemma idle_run:
  "\<not> shouldConnectRef c \<Longrightarrow> Mount \<notin> set es \<Longrightarrow>
   \<not> shouldConnectRef (run pf es c) \<and> length (sockets (run pf es c)) = length (sockets c)
   \<and> next_handle (run pf es c) = next_handle c"
proof (induction es arbitrary: c)
  case Nil
  then show ?case by simp
next
  case (Cons e es)
  then have e: "e \<noteq> Mount" and es: "Mount \<notin> set es" by auto
  note s = idle_step [OF Cons.prems(1) e, of pf]
  show ?case using Cons.IH [OF s(1) es] s by simp
qed

subsection \<open>A refused start\<close>

lemma startAnalysis_fetched:
  "fetched (snd (startAnalysis pf request a)) = fetched a @ [start_request pf request]"
  by (simp add: startAnalysis_def start_request_def Let_def split: sum.splits)

lemma startAnalysis_not_ok:
  assumes "fetch pf (start_request pf request) = Inr response" "\<not> ok response"
  shows "fst (startAnalysis pf request a) =
     (case get_property (case json response of
                         Inl _ \<Rightarrow> JObject [(''detail'', JString ''Unknown error'')]
                       | Inr v \<Rightarrow> v) ''detail'' of
        Inl e \<Rightarrow> Inl e
      | Inr d \<Rightarrow> (case new_Error pf (if truthy d then d else JString ''Failed to start analysis'') of
                    Inl e \<Rightarrow> Inl e | Inr err \<Rightarrow> Inl err))"
  using assms
  by (simp add: startAnalysis_def start_request_def [symmetric] Let_def split: sum.splits)

lemma startAnalysis_rejects:
  assumes "fetch pf (start_request pf request) = Inr response" "\<not> ok response"
  shows "\<exists>e. fst (startAnalysis pf request a) = Inl e"
  unfolding startAnalysis_not_ok [OF assms] by (simp split: sum.splits)

lemma handleStartAnalysis_rejected:
  assumes "fst (startAnalysis pf (request_of config)
                  (a\<lparr>error_App := None, isStarting := True, hook := clearMessages (hook a)\<rparr>)) = Inl e"
  shows "error_App (handleStartAnalysis pf config a)
           = Some (case e of ErrorInstance _ m \<Rightarrow> m | Thrown _ \<Rightarrow> ''Failed to start analysis'')"
    and "isStarting (handleStartAnalysis pf config a) = False"
    and "fetched (handleStartAnalysis pf config a) = fetched a @ [start_request pf (request_of config)]"
proof -
  let ?a3 = "a\<lparr>error_App := None, isStarting := True, hook := clearMessages (hook a)\<rparr>"
  obtain out a4 where o: "startAnalysis pf (request_of config) ?a3 = (out, a4)"
    by (cases "startAnalysis pf (request_of config) ?a3")
  have out: "out = Inl e" using assms o by simp
  have f: "fetched a4 = fetched a @ [start_request pf (request_of config)]"
    using startAnalysis_fetched [of pf "request_of config" ?a3] o by simp
  have h: "handleStartAnalysis pf config a =
      (a4\<lparr>error_App := Some (case e of ErrorInstance _ m \<Rightarrow> m | Thrown _ \<Rightarrow> ''Failed to start analysis''),
           hook := console_error [ArgString ''Failed to start analysis:'', ArgException e] (hook a4),
           isStarting := False\<rparr>)"
    using o out
    by (simp add: handleStartAnalysis_def request_of_def [symmetric] Let_def)
  show "error_App (handleStartAnalysis pf config a)
           = Some (case e of ErrorInstance _ m \<Rightarrow> m | Thrown _ \<Rightarrow> ''Failed to start analysis'')"
    and "isStarting (handleStartAnalysis pf config a) = False"
    and "fetched (handleStartAnalysis pf config a) = fetched a @ [start_request pf (request_of config)]"
    by (simp_all add: h f)
qed

subsection \<open>The worked examples, evaluated\<close>

lemma sample_connected_eq:
  "sample_connected =
     \<lparr> isConnected = True, messages = [''[09:30:00] Fetching news...''], state = idle,
       wsRef = Some 0, reconnectTimeoutRef = None, shouldConnectRef = True,
       sockets = [\<lparr> url = ''ws://localhost:8000/ws'', readyState = OPEN \<rparr>],
       timers = [], next_handle = 1, now = 0,
       console = [ConsoleLog [ArgString ''Connecting to WebSocket...''],
                  ConsoleLog [ArgString ''WebSocket connected'']] \<rparr>"
  by (simp add: sample_connected_def step_def sample_platform_def initial_def mount_def
        connect_def onopen_def onmessage_def onmessage_try_def setMessages_appended_def
        new_Date_toLocaleTimeString_def get_property_def prim_defs WS_URL_def idle_def)

lemma sample_lost_eq:
  "step sample_platform (ConnectionLost 0 True) sample_connected =
     \<lparr> isConnected = False, messages = [''[09:30:00] Fetching news...''], state = idle,
       wsRef = None, reconnectTimeoutRef = Some 1, shouldConnectRef = True,
       sockets = [\<lparr> url = ''ws://localhost:8000/ws'', readyState = CLOSED \<rparr>],
       timers = [\<lparr> handle = 1, set_at = 0, delay = 3000 \<rparr>], next_handle = 2, now = 0,
       console = [ConsoleLog [ArgString ''Connecting to WebSocket...''],
                  ConsoleLog [ArgString ''WebSocket connected''],
                  ConsoleError [ArgString ''WebSocket error:'', ArgEvent],
                  ConsoleLog [ArgString ''WebSocket disconnected''],
                  ConsoleLog [ArgString ''Reconnecting in 3000ms...'']] \<rparr>"
  by (simp add: sample_connected_eq step_def onerror_def onclose_def prim_defs
        RECONNECT_DELAY_def Let_def) code_simp

lemma sample_fetch:
  "fetch sample_api (start_request sample_api (request_of (sample_config ''TSLA'')))
     = Inr \<lparr> ok = False,
              json = Inr (JObject [(''detail'', JString ''Analysis already running'')]) \<rparr>"
  "fetch sample_api (start_request sample_api (request_of (sample_config ''AAPL'')))
     = Inr \<lparr> ok = False, json = Inl (ErrorInstance ''SyntaxError'' ''Unexpected token'') \<rparr>"
  "fetch sample_api (start_request sample_api (request_of (sample_config ''MSFT'')))
     = Inr \<lparr> ok = False, json = Inr (JObject [(''detail'', JString '''')]) \<rparr>"
  by (simp_all add: sample_api_def start_request_def request_of_def sample_config_def)

section \<open>Properties of the message handler\<close>

text \<open>
  Claim C1, as stated, fails: a message of type \<^verbatim>\<open>result\<close> is not surfaced to the caller.
  On a connected client the value the hook returns (\<^verbatim>\<open>UseWebSocketResult\<close>) is the same after
  a result frame as before it, and the same for two different payloads.
\<close>

theorem result_not_surfaced_counterexample:
  \<open>useWebSocketResult
     (step sample_platform (SocketMessage 0 ''{"type":"result","payload":{"decision":"BUY"}}'')
        (run sample_platform [Mount, SocketOpen 0] initial))
   = useWebSocketResult (run sample_platform [Mount, SocketOpen 0] initial)
   \<and> useWebSocketResult
     (step sample_platform (SocketMessage 0 ''{"type":"result","payload":{"decision":"BUY"}}'')
        (run sample_platform [Mount, SocketOpen 0] initial))
   = useWebSocketResult
     (step sample_platform (SocketMessage 0 ''{"type":"result","payload":{"decision":"SELL"}}'')
        (run sample_platform [Mount, SocketOpen 0] initial))\<close>
  by (simp add: step_def sample_platform_def initial_def useWebSocketResult_def mount_def
        connect_def onopen_def onmessage_def onmessage_try_def get_property_def
        prim_defs WS_URL_def)

text \<open>
  Claim C1, amended. A frame that parses to a value of type \<^verbatim>\<open>result\<close> writes the
  payload once to the console (\<^verbatim>\<open>console.log('Received result:', payload)\<close>) and does
  nothing else: what the hook returns to its caller is unchanged, in particular no entry is
  appended to \<open>messages\<close>.
\<close>

theorem result_logged_to_console_only:
  assumes "JSON_parse pf d = Inr data"
      and "get_property data ''type'' = Inr (JString ''result'')"
      and "get_property data ''payload'' = Inr payload"
  shows "console (onmessage pf d c)
           = console c @ [ConsoleLog [ArgString ''Received result:'', ArgValue payload]]
       \<and> useWebSocketResult (onmessage pf d c) = useWebSocketResult c
       \<and> messages (onmessage pf d c) = messages c
       \<and> onmessage pf d c = c\<lparr>console := console (onmessage pf d c)\<rparr>"
  using assms
  by (simp add: onmessage_def onmessage_try_def console_log_def useWebSocketResult_def)

theorem result_logged_to_console_only_witness:
  \<open>JSON_parse sample_platform ''{"type":"result","payload":{"decision":"BUY"}}''
     = Inr (JObject [(''type'', JString ''result''),
                     (''payload'', JObject [(''decision'', JString ''BUY'')])])
   \<and> console (onmessage sample_platform ''{"type":"result","payload":{"decision":"BUY"}}'' initial)
     = [ConsoleLog [ArgString ''Received result:'',
                    ArgValue (JObject [(''decision'', JString ''BUY'')])]]
   \<and> messages (onmessage sample_platform ''{"type":"result","payload":{"decision":"BUY"}}'' initial)
     = []\<close>
proof -
  have h: \<open>JSON_parse sample_platform ''{"type":"result","payload":{"decision":"BUY"}}''
     = Inr (JObject [(''type'', JString ''result''),
                     (''payload'', JObject [(''decision'', JString ''BUY'')])])\<close>
    by (simp add: sample_platform_def)
  have t: "get_property (JObject [(''type'', JString ''result''),
                     (''payload'', JObject [(''decision'', JString ''BUY'')])]) ''type''
             = Inr (JString ''result'')"
    and p: "get_property (JObject [(''type'', JString ''result''),
                     (''payload'', JObject [(''decision'', JString ''BUY'')])]) ''payload''
             = Inr (JObject [(''decision'', JString ''BUY'')])"
    by (simp_all add: get_property_def)
  show ?thesis
    using h result_logged_to_console_only [OF h t p, of initial]
    by (simp add: initial_def)
qed

text \<open>
  Claim C2. A frame that parses to a value of type \<^verbatim>\<open>ping\<close> changes nothing: the log
  accumulator \<open>messages\<close> and the \<open>state\<close> field are as before, and so is every other
  part of the client (the console included), whether the handler is called directly or the
  frame is delivered on a socket.
\<close>

theorem ping_consumed_silently:
  assumes "JSON_parse pf d = Inr data"
      and "get_property data ''type'' = Inr (JString ''ping'')"
  shows "messages (onmessage pf d c) = messages c
       \<and> state (onmessage pf d c) = state c
       \<and> onmessage pf d c = c
       \<and> step pf (SocketMessage i d) c = c"
  using assms by (simp add: onmessage_def onmessage_try_def step_def)

theorem ping_consumed_silently_witness:
  \<open>JSON_parse sample_platform ''{"type":"ping"}'' = Inr (JObject [(''type'', JString ''ping'')])
   \<and> get_property (JObject [(''type'', JString ''ping'')]) ''type'' = Inr (JString ''ping'')
   \<and> messages (onmessage sample_platform ''{"type":"ping"}'' (run sample_platform [Mount, SocketOpen 0] initial))
       = messages (run sample_platform [Mount, SocketOpen 0] initial)
   \<and> state (onmessage sample_platform ''{"type":"ping"}'' (run sample_platform [Mount, SocketOpen 0] initial))
       = state (run sample_platform [Mount, SocketOpen 0] initial)\<close>
proof -
  have h: \<open>JSON_parse sample_platform ''{"type":"ping"}'' = Inr (JObject [(''type'', JString ''ping'')])\<close>
    by (simp add: sample_platform_def)
  have t: "get_property (JObject [(''type'', JString ''ping'')]) ''type'' = Inr (JString ''ping'')"
    by (simp add: get_property_def)
  show ?thesis
    using h t ping_consumed_silently [OF h t, of "run sample_platform [Mount, SocketOpen 0] initial" 0]
    by simp
qed




text \<open>
  Claim C6. A frame that parses to a value of type \<^verbatim>\<open>log\<close> whose \<^verbatim>\<open>ts\<close> and
  \<^verbatim>\<open>message\<close> are strings appends exactly one entry, \<^verbatim>\<open>[<time of ts>] <message>\<close>, at the
  end of \<open>messages\<close> and keeps the earlier entries; a frame that parses to a value of type
  \<^verbatim>\<open>status\<close> sets \<open>state\<close> to the value's \<^verbatim>\<open>state\<close> and leaves \<open>messages\<close> alone.
  Nothing else changes in either case.
\<close>

theorem log_appended_status_set:
  assumes "JSON_parse pf d = Inr data"
  shows
  "(get_property data ''type'' = Inr (JString ''log'')
      \<and> get_property data ''ts'' = Inr (JString ts)
      \<and> get_property data ''message'' = Inr (JString m) \<longrightarrow>
      messages (onmessage pf d c) = messages c @ [''['' @ toLocaleTimeString pf ts @ ''] '' @ m]
    \<and> length (messages (onmessage pf d c)) = Suc (length (messages c))
    \<and> take (length (messages c)) (messages (onmessage pf d c)) = messages c
    \<and> onmessage pf d c = c\<lparr>messages := messages c @ [''['' @ toLocaleTimeString pf ts @ ''] '' @ m]\<rparr>)
 \<and> (get_property data ''type'' = Inr (JString ''status'')
      \<and> get_property data ''state'' = Inr s \<longrightarrow>
      state (onmessage pf d c) = s
    \<and> messages (onmessage pf d c) = messages c
    \<and> onmessage pf d c = c\<lparr>state := s\<rparr>)"
  using assms
  by (simp add: onmessage_def onmessage_try_def setMessages_appended_def
        new_Date_toLocaleTimeString_def)

theorem log_appended_status_set_witness:
  \<open>JSON_parse sample_platform
       ''{"type":"log","message":"Fetching news...","ts":"2024-05-01T09:30:00"}''
     = Inr (JObject [(''type'', JString ''log''), (''message'', JString ''Fetching news...''),
                     (''ts'', JString ''2024-05-01T09:30:00'')])
   \<and> messages (onmessage sample_platform
         ''{"type":"log","message":"Fetching news...","ts":"2024-05-01T09:30:00"}''
         (initial\<lparr>messages := [''[09:29:58] Fetching market data...'']\<rparr>))
     = [''[09:29:58] Fetching market data...'', ''[09:30:00] Fetching news...'']
   \<and> JSON_parse sample_platform ''{"type":"status","state":"running"}''
     = Inr (JObject [(''type'', JString ''status''), (''state'', JString ''running'')])
   \<and> state (onmessage sample_platform ''{"type":"status","state":"running"}'' initial) = running
   \<and> messages (onmessage sample_platform ''{"type":"status","state":"running"}'' initial) = []\<close>
proof -
  have h1: \<open>JSON_parse sample_platform
       ''{"type":"log","message":"Fetching news...","ts":"2024-05-01T09:30:00"}''
     = Inr (JObject [(''type'', JString ''log''), (''message'', JString ''Fetching news...''),
                     (''ts'', JString ''2024-05-01T09:30:00'')])\<close>
    and h2: \<open>JSON_parse sample_platform ''{"type":"status","state":"running"}''
     = Inr (JObject [(''type'', JString ''status''), (''state'', JString ''running'')])\<close>
    by (simp_all add: sample_platform_def)
  have t: \<open>toLocaleTimeString sample_platform ''2024-05-01T09:30:00'' = ''09:30:00''\<close>
    by (simp add: sample_platform_def)
  show ?thesis
    using h1 h2 t
      log_appended_status_set [OF h1, of \<open>''2024-05-01T09:30:00''\<close> \<open>''Fetching news...''\<close>
          \<open>initial\<lparr>messages := [''[09:29:58] Fetching market data...'']\<rparr>\<close> running]
      log_appended_status_set [OF h2, of "[]" "[]" initial running]
    by (simp add: get_property_def initial_def running_def)
qed

section \<open>Properties of the connection lifecycle\<close>

text \<open>
  Claim C4. On a client reached from the initial one by any events, with the intent set,
  let a live socket be lost, with or without an error. Then exactly one timeout is added, set
  now with delay \<open>RECONNECT_DELAY = 3000\<close>, and no socket is constructed yet; every pending
  timeout has that same delay; the timeout does nothing while less than the delay has
  passed; once the delay has passed, its firing constructs a new connecting socket for the
  same URL. This repeats without bound: after any number of successive losses of the
  current socket there is one more socket per loss, a total wait of that many delays, the
  intent is still set and the newest socket is live. With the intent cleared, \<^verbatim>\<open>onclose\<close>
  sets no timeout.
\<close>

theorem reconnect_after_fixed_delay:
  assumes "c = run pf es initial" and "shouldConnectRef c" and "live c i"
  shows "RECONNECT_DELAY = 3000
       \<and> list_all (\<lambda>t. delay t = RECONNECT_DELAY) (timers c)
       \<and> timers (step pf (ConnectionLost i failed) c)
           = timers c @ [\<lparr> handle = next_handle c, set_at = now c, delay = RECONNECT_DELAY \<rparr>]
       \<and> sockets (onclose c) = sockets c
       \<and> length (sockets (step pf (ConnectionLost i failed) c)) = length (sockets c)
       \<and> (d < RECONNECT_DELAY \<longrightarrow>
            step pf (TimerFires (next_handle c))
                 (step pf (Elapse d) (step pf (ConnectionLost i failed) c))
            = step pf (Elapse d) (step pf (ConnectionLost i failed) c))
       \<and> (RECONNECT_DELAY \<le> d \<longrightarrow>
            sockets (run pf [ConnectionLost i failed, Elapse d, TimerFires (next_handle c)] c)
            = sockets (step pf (ConnectionLost i failed) c)
                @ [\<lparr> url = WS_URL pf, readyState = CONNECTING \<rparr>])
       \<and> (Suc i = length (sockets c) \<longrightarrow>
            length (sockets (run pf (lose_and_retry i (next_handle c) fs) c))
              = length (sockets c) + length fs
          \<and> now (run pf (lose_and_retry i (next_handle c) fs) c)
              = now c + length fs * RECONNECT_DELAY
          \<and> shouldConnectRef (run pf (lose_and_retry i (next_handle c) fs) c)
          \<and> live (run pf (lose_and_retry i (next_handle c) fs) c) (i + length fs))
       \<and> (\<not> shouldConnectRef k \<longrightarrow>
            timers (onclose k) = timers k \<and> next_handle (onclose k) = next_handle k)"
proof -
  have hf: "handles_fresh c" unfolding assms(1) by (rule hf_reachable)
  have a: "list_all (\<lambda>t. delay t = RECONNECT_DELAY) (timers c)"
    using hf by (auto simp: handles_fresh_def list_all_iff)
  have b: "timers (step pf (ConnectionLost i failed) c)
           = timers c @ [\<lparr> handle = next_handle c, set_at = now c, delay = RECONNECT_DELAY \<rparr>]"
       "length (sockets (step pf (ConnectionLost i failed) c)) = length (sockets c)"
    using assms(2,3) by (simp_all add: lost_fields)
  have e: "d < RECONNECT_DELAY \<longrightarrow>
            step pf (TimerFires (next_handle c))
                 (step pf (Elapse d) (step pf (ConnectionLost i failed) c))
            = step pf (Elapse d) (step pf (ConnectionLost i failed) c)"
    using not_due_before_delay [OF hf assms(3,2), of d pf failed]
    by (simp add: step_simps(5))
  have f: "RECONNECT_DELAY \<le> d \<longrightarrow>
            sockets (run pf [ConnectionLost i failed, Elapse d, TimerFires (next_handle c)] c)
            = sockets (step pf (ConnectionLost i failed) c)
                @ [\<lparr> url = WS_URL pf, readyState = CONNECTING \<rparr>]"
    using retry_connects(1) [OF assms(3,2) _ refl] by blast
  have g: "Suc i = length (sockets c) \<longrightarrow>
            length (sockets (run pf (lose_and_retry i (next_handle c) fs) c))
              = length (sockets c) + length fs
          \<and> now (run pf (lose_and_retry i (next_handle c) fs) c)
              = now c + length fs * RECONNECT_DELAY
          \<and> shouldConnectRef (run pf (lose_and_retry i (next_handle c) fs) c)
          \<and> live (run pf (lose_and_retry i (next_handle c) fs) c) (i + length fs)"
    using retries_unbounded [OF assms(3,2)] by blast
  show ?thesis
    using a b e f g by (simp add: RECONNECT_DELAY_def)
qed

theorem reconnect_after_fixed_delay_witness:
  "shouldConnectRef sample_connected \<and> live sample_connected 0
   \<and> timers (step sample_platform (ConnectionLost 0 True) sample_connected)
       = [\<lparr> handle = 1, set_at = 0, delay = 3000 \<rparr>]
   \<and> (2999::nat) < RECONNECT_DELAY
   \<and> step sample_platform (TimerFires 1)
         (step sample_platform (Elapse 2999)
            (step sample_platform (ConnectionLost 0 True) sample_connected))
       = step sample_platform (Elapse 2999)
            (step sample_platform (ConnectionLost 0 True) sample_connected)
   \<and> RECONNECT_DELAY \<le> 3000
   \<and> sockets (run sample_platform [ConnectionLost 0 True, Elapse 3000, TimerFires 1]
                sample_connected)
       = [\<lparr> url = ''ws://localhost:8000/ws'', readyState = CLOSED \<rparr>,
          \<lparr> url = ''ws://localhost:8000/ws'', readyState = CONNECTING \<rparr>]
   \<and> Suc 0 = length (sockets sample_connected)
   \<and> length (sockets (run sample_platform (lose_and_retry 0 1 [True, False]) sample_connected)) = 3
   \<and> now (run sample_platform (lose_and_retry 0 1 [True, False]) sample_connected) = 6000
   \<and> \<not> shouldConnectRef (cleanup sample_connected)
   \<and> timers (onclose (cleanup sample_connected)) = timers (cleanup sample_connected)"
proof -
  have h: "shouldConnectRef sample_connected" "live sample_connected 0"
    by (simp_all add: sample_connected_eq live_def socket_readyState_def)
  have v: "next_handle sample_connected = 1" "length (sockets sample_connected) = 1"
    "now sample_connected = 0" "timers sample_connected = []"
    by (simp_all add: sample_connected_eq)
  have d: "(2999::nat) < RECONNECT_DELAY" "RECONNECT_DELAY \<le> 3000"
    by (simp_all add: RECONNECT_DELAY_def)
  have l: "Suc 0 = length (sockets sample_connected)" by (simp add: v)
  have k: "\<not> shouldConnectRef (cleanup sample_connected)" by simp
  have s: "sockets (step sample_platform (ConnectionLost 0 True) sample_connected)
             = [\<lparr> url = ''ws://localhost:8000/ws'', readyState = CLOSED \<rparr>]"
    by (simp add: sample_lost_eq)
  have u: "WS_URL sample_platform = ''ws://localhost:8000/ws''"
    by (simp add: WS_URL_def sample_platform_def)
  note T = reconnect_after_fixed_delay [OF sample_connected_def h, of True 2999 "[True, False]"
        "cleanup sample_connected"]
  note T' = reconnect_after_fixed_delay [OF sample_connected_def h, of True 3000 "[]"
        "cleanup sample_connected"]
  from T have t1: "timers (step sample_platform (ConnectionLost 0 True) sample_connected)
           = timers sample_connected
               @ [\<lparr> handle = next_handle sample_connected, set_at = now sample_connected,
                    delay = RECONNECT_DELAY \<rparr>]"
    by blast
  from T d have t2: "step sample_platform (TimerFires (next_handle sample_connected))
         (step sample_platform (Elapse 2999)
            (step sample_platform (ConnectionLost 0 True) sample_connected))
       = step sample_platform (Elapse 2999)
            (step sample_platform (ConnectionLost 0 True) sample_connected)"
    by blast
  from T l have t3: "length (sockets (run sample_platform
            (lose_and_retry 0 (next_handle sample_connected) [True, False]) sample_connected))
              = length (sockets sample_connected) + length [True, False]"
     and t4: "now (run sample_platform
            (lose_and_retry 0 (next_handle sample_connected) [True, False]) sample_connected)
              = now sample_connected + length [True, False] * RECONNECT_DELAY"
    by blast+
  from T k have t5: "timers (onclose (cleanup sample_connected)) = timers (cleanup sample_connected)"
    by blast
  from T' d have t6: "sockets (run sample_platform
            [ConnectionLost 0 True, Elapse 3000, TimerFires (next_handle sample_connected)]
            sample_connected)
       = sockets (step sample_platform (ConnectionLost 0 True) sample_connected)
           @ [\<lparr> url = WS_URL sample_platform, readyState = CONNECTING \<rparr>]"
    by blast
  have a1: "timers (step sample_platform (ConnectionLost 0 True) sample_connected)
       = [\<lparr> handle = 1, set_at = 0, delay = 3000 \<rparr>]"
    unfolding t1 v by (simp add: RECONNECT_DELAY_def)
  have a3: "length (sockets (run sample_platform (lose_and_retry 0 1 [True, False])
                               sample_connected)) = 3"
    using t3 unfolding v by simp
  have a4: "now (run sample_platform (lose_and_retry 0 1 [True, False]) sample_connected) = 6000"
    using t4 unfolding v by (simp add: RECONNECT_DELAY_def)
  have a6: "sockets (run sample_platform [ConnectionLost 0 True, Elapse 3000, TimerFires 1]
                sample_connected)
       = [\<lparr> url = ''ws://localhost:8000/ws'', readyState = CLOSED \<rparr>,
          \<lparr> url = ''ws://localhost:8000/ws'', readyState = CONNECTING \<rparr>]"
    using t6 unfolding v s u by simp
  show ?thesis
    using h a1 d t2 a6 l a3 a4 k t5 unfolding v by blast
qed

text \<open>
  Claim C5. When a live socket of a client with the intent set is lost, \<open>isConnected\<close>
  becomes false; when the reconnect timeout then fires and the new socket opens,
  \<open>isConnected\<close> is true again on the same client, and \<open>messages\<close> is what it was before
  the loss. Neither \<^verbatim>\<open>onclose\<close> nor \<^verbatim>\<open>onopen\<close> nor \<^verbatim>\<open>connect\<close> touches \<open>messages\<close>,
  and no run of events other than \<^verbatim>\<open>clearMessages\<close> removes an entry.
\<close>

theorem reconnect_restores_flag_and_keeps_log:
  assumes "live c i" and "shouldConnectRef c" and "RECONNECT_DELAY \<le> d"
  shows "isConnected (step pf (ConnectionLost i failed) c) = False
       \<and> isConnected (run pf [ConnectionLost i failed, Elapse d, TimerFires (next_handle c),
                               SocketOpen (length (sockets c))] c) = True
       \<and> messages (run pf [ConnectionLost i failed, Elapse d, TimerFires (next_handle c),
                            SocketOpen (length (sockets c))] c) = messages c
       \<and> messages (onclose c) = messages c
       \<and> messages (onopen c) = messages c
       \<and> messages (connect pf c) = messages c
       \<and> (ClearMessages \<notin> set es \<longrightarrow> (\<exists>ys. messages (run pf es c) = messages c @ ys))"
proof -
  let ?c3 = "run pf [ConnectionLost i failed, Elapse d, TimerFires (next_handle c)] c"
  let ?j = "length (sockets c)"
  have len: "length (sockets (step pf (ConnectionLost i failed) c)) = ?j"
    using assms(1) by (simp add: lost_fields)
  have "sockets ?c3 = sockets (step pf (ConnectionLost i failed) c)
                        @ [\<lparr> url = WS_URL pf, readyState = CONNECTING \<rparr>]"
    using retry_connects(1) [OF assms refl] .
  then have conn: "socket_readyState ?c3 ?j = Some CONNECTING"
    using len by (simp add: socket_readyState_def nth_append)
  have run4: "run pf [ConnectionLost i failed, Elapse d, TimerFires (next_handle c), SocketOpen ?j] c
          = step pf (SocketOpen ?j) ?c3"
    by simp
  have "step pf (SocketOpen ?j) ?c3 = onopen (set_readyState ?j OPEN ?c3)"
    using conn by (simp add: step_simps(3))
  then have "isConnected (step pf (SocketOpen ?j) ?c3) = True"
    and "messages (step pf (SocketOpen ?j) ?c3) = messages ?c3"
    by simp_all
  moreover have "messages ?c3 = messages c"
    using retry_connects(4) [OF assms refl] .
  moreover have "isConnected (step pf (ConnectionLost i failed) c) = False"
    using assms(1) by (simp add: lost_fields)
  ultimately show ?thesis
    using run_keeps_log [of es pf c] by (simp only: run4) simp
qed

theorem reconnect_restores_flag_and_keeps_log_witness:
  "live sample_connected 0 \<and> shouldConnectRef sample_connected \<and> RECONNECT_DELAY \<le> 3000
   \<and> isConnected (step sample_platform (ConnectionLost 0 True) sample_connected) = False
   \<and> isConnected (run sample_platform
         [ConnectionLost 0 True, Elapse 3000, TimerFires 1, SocketOpen 1] sample_connected) = True
   \<and> messages (run sample_platform
         [ConnectionLost 0 True, Elapse 3000, TimerFires 1, SocketOpen 1] sample_connected)
       = [''[09:30:00] Fetching news...'']"
proof -
  have h: "live sample_connected 0" "shouldConnectRef sample_connected" "RECONNECT_DELAY \<le> 3000"
    by (simp_all add: sample_connected_eq live_def socket_readyState_def RECONNECT_DELAY_def)
  have v: "next_handle sample_connected = 1" "length (sockets sample_connected) = 1"
    "messages sample_connected = [''[09:30:00] Fetching news...'']"
    by (simp_all add: sample_connected_eq)
  show ?thesis
    using h reconnect_restores_flag_and_keeps_log [OF h, of sample_platform True "[]"]
    by (simp add: v)
qed

text \<open>
  Claim C7 fails on the code when the mount effect runs a second time on the same refs
  (mount, unmount, mount, as React's strict mode does), because \<^verbatim>\<open>onclose\<close> sets
  \<^verbatim>\<open>wsRef.current = null\<close> whichever socket has closed. The close event of the first socket
  arrives after the second mount and clears the ref that holds the second socket. Once
  that socket has opened, it is open while the ref is empty: \<^verbatim>\<open>connect\<close> is then not a
  no-op but constructs a third socket, and the cleanup closes nothing, so the socket stays
  open after the teardown. In the same way, when both sockets are lost, the first retry
  timeout is no longer the one the ref holds, and it is still pending after the cleanup.
\<close>

theorem remount_teardown_leaves_socket_open:
  "socket_readyState
       (run sample_platform [Mount, Unmount, Mount, ConnectionLost 0 True, SocketOpen 1] initial) 1
     = Some OPEN
   \<and> wsRef (run sample_platform [Mount, Unmount, Mount, ConnectionLost 0 True, SocketOpen 1]
               initial) = None
   \<and> length (sockets (run sample_platform
               [Mount, Unmount, Mount, ConnectionLost 0 True, SocketOpen 1] initial)) = 2
   \<and> length (sockets (connect sample_platform
               (run sample_platform [Mount, Unmount, Mount, ConnectionLost 0 True, SocketOpen 1]
                  initial))) = 3
   \<and> \<not> shouldConnectRef
         (run sample_platform
            [Mount, Unmount, Mount, ConnectionLost 0 True, SocketOpen 1, Unmount] initial)
   \<and> socket_readyState
       (run sample_platform
          [Mount, Unmount, Mount, ConnectionLost 0 True, SocketOpen 1, Unmount] initial) 1
     = Some OPEN
   \<and> timers (run sample_platform
          [Mount, Unmount, Mount, ConnectionLost 0 True, ConnectionLost 1 False, Unmount] initial)
     = [\<lparr> handle = 1, set_at = 0, delay = 3000 \<rparr>]"
  by (simp add: step_def sample_platform_def initial_def mount_def cleanup_def connect_def
        onopen_def onclose_def onerror_def prim_defs WS_URL_def RECONNECT_DELAY_def Let_def)

text \<open>
  Claim C9. A fresh client, before and after its mount effect has run, reports
  \<open>isConnected = False\<close>, \<open>messages = []\<close> and \<open>state = idle\<close>.
\<close>

theorem initial_result:
  "isConnected initial = False \<and> messages initial = [] \<and> state initial = idle
   \<and> useWebSocketResult (mount pf initial)
       = \<lparr> isConnected = False, messages = [], state = idle \<rparr>"
  by (simp add: initial_def mount_def connect_def useWebSocketResult_def prim_defs)

text \<open>
  Claim C10. \<^verbatim>\<open>clearMessages\<close> empties \<open>messages\<close> and changes nothing else: the
  connectivity flag, the state field, the connection intent, the socket ref, the sockets and
  the pending timeouts are as before.
\<close>

theorem clearMessages_only_clears_log:
  "messages (clearMessages c) = []
   \<and> isConnected (clearMessages c) = isConnected c
   \<and> state (clearMessages c) = state c
   \<and> shouldConnectRef (clearMessages c) = shouldConnectRef c
   \<and> wsRef (clearMessages c) = wsRef c
   \<and> sockets (clearMessages c) = sockets c
   \<and> timers (clearMessages c) = timers c
   \<and> reconnectTimeoutRef (clearMessages c) = reconnectTimeoutRef c
   \<and> clearMessages c = c\<lparr>messages := []\<rparr>
   \<and> step pf ClearMessages c = clearMessages c"
  by (simp add: clearMessages_def step_def)

section \<open>Properties of starting an analysis\<close>




end
